theory Spec2Isabelle
  imports Complex_Main "HOL-Library.Char_ord" "HOL-Library.List_Lexorder"
    "HOL-Library.Multiset"
begin

section \<open>JavaScript numbers\<close>

text \<open>
  A JavaScript number is a binary64 value: \<open>NaN\<close>, an infinity, or a finite value
  \<open>Fin x\<close>, where \<open>x\<close> is the real number the double stands for. The two zeros are
  one value here: the code never divides by a zero and never prints one, which is all
  that would tell them apart.
\<close>

datatype jsnum = NaN | PInf | NInf | Fin real

text \<open>The number of binary digits of a positive integer.\<close>

function bit_length :: "int \<Rightarrow> int" where
  "bit_length n = (if n \<le> 0 then 0 else 1 + bit_length (n div 2))"
  by pat_completeness auto
termination
  by (relation "measure nat") auto

declare bit_length.simps [simp del]

text \<open>\<open>2\<close> to an integer power.\<close>

definition pow2 :: "int \<Rightarrow> real" where
  "pow2 e = (if 0 \<le> e then 2 ^ nat e else 1 / 2 ^ nat (- e))"

text \<open>The binary exponent \<open>e\<close> of a positive real: \<open>2 ^ e \<le> x < 2 ^ (e + 1)\<close>.\<close>

definition exponent_of :: "real \<Rightarrow> int" where
  "exponent_of x = (if 1 \<le> x then bit_length \<lfloor>x\<rfloor> - 1 else - bit_length (\<lceil>1 / x\<rceil> - 1))"

text \<open>The nearest integer, the even one of two that are equally near.\<close>

definition round_even :: "real \<Rightarrow> int" where
  "round_even x =
     (let f = \<lfloor>x\<rfloor>; d = x - of_int f
      in if d < 1 / 2 then f else if 1 / 2 < d then f + 1 else if even f then f else f + 1)"

text \<open>
  The double nearest to a real number (round to nearest, ties to even): 53 significant
  bits, the spacing \<open>2 ^ - 1074\<close> below \<open>2 ^ - 1022\<close>, an infinity from \<open>2 ^ 1024\<close> on:
  the rounded value is \<open>m * 2 ^ (e - 52)\<close>, which reaches \<open>2 ^ 1024\<close> when
  \<open>e - 52\<close> and the exponent \<open>bit_length m - 1\<close> of \<open>m\<close> add up to 1024.
  Every arithmetic operation and every conversion from a decimal numeral rounds so.
\<close>

definition fl :: "real \<Rightarrow> jsnum" where
  "fl x =
     (if x = 0 then Fin 0
      else
        (let a = \<bar>x\<bar>;
             e = max (exponent_of a) (- 1022);
             q = pow2 (e - 52);
             m = round_even (a / q);
             r = of_int m * q
         in if 1024 \<le> e - 53 + bit_length m then (if x < 0 then NInf else PInf)
            else Fin (if x < 0 then - r else r)))"

fun js_neg :: "jsnum \<Rightarrow> jsnum" where
  "js_neg NaN = NaN"
| "js_neg PInf = NInf"
| "js_neg NInf = PInf"
| "js_neg (Fin x) = Fin (- x)"

text \<open>\<open>a + b\<close>\<close>

fun js_add :: "jsnum \<Rightarrow> jsnum \<Rightarrow> jsnum" where
  "js_add NaN b = NaN"
| "js_add a NaN = NaN"
| "js_add PInf NInf = NaN"
| "js_add NInf PInf = NaN"
| "js_add PInf b = PInf"
| "js_add a PInf = PInf"
| "js_add NInf b = NInf"
| "js_add a NInf = NInf"
| "js_add (Fin x) (Fin y) = fl (x + y)"

text \<open>\<open>a - b\<close>\<close>

definition js_sub :: "jsnum \<Rightarrow> jsnum \<Rightarrow> jsnum" where
  "js_sub a b = js_add a (js_neg b)"

text \<open>\<open>a / b\<close>; a zero divisor counts as the positive zero.\<close>

fun js_div :: "jsnum \<Rightarrow> jsnum \<Rightarrow> jsnum" where
  "js_div NaN b = NaN"
| "js_div a NaN = NaN"
| "js_div (Fin x) (Fin y) =
     (if y = 0 then (if x = 0 then NaN else if 0 < x then PInf else NInf)
      else fl (x / y))"
| "js_div (Fin x) b = Fin 0"
| "js_div a (Fin y) = (if 0 \<le> y then a else js_neg a)"
| "js_div a b = NaN"

text \<open>\<open>a < b\<close>, false as soon as one side is \<open>NaN\<close>.\<close>

fun js_lt :: "jsnum \<Rightarrow> jsnum \<Rightarrow> bool" where
  "js_lt NaN b = False"
| "js_lt a NaN = False"
| "js_lt (Fin x) (Fin y) = (x < y)"
| "js_lt a NInf = False"
| "js_lt PInf b = False"
| "js_lt a b = True"

text \<open>\<open>a <= b\<close>\<close>

fun js_le :: "jsnum \<Rightarrow> jsnum \<Rightarrow> bool" where
  "js_le NaN b = False"
| "js_le a NaN = False"
| "js_le a b = (\<not> js_lt b a)"

text \<open>\<open>Math.max(a, b)\<close>\<close>

definition js_max :: "jsnum \<Rightarrow> jsnum \<Rightarrow> jsnum" where
  "js_max a b = (if a = NaN \<or> b = NaN then NaN else if js_lt a b then b else a)"

text \<open>\<open>x || d\<close> on a number: \<open>NaN\<close> and 0 are falsy.\<close>

definition num_or :: "jsnum \<Rightarrow> jsnum \<Rightarrow> jsnum" where
  "num_or x d = (if x = NaN \<or> x = Fin 0 then d else x)"

text \<open>
  \<open>Number(x.toFixed(f))\<close>. \<open>toFixed\<close> writes the integer \<open>n\<close> for which
  \<open>n / 10 ^ f\<close> is nearest to the exact value of the double, the larger one of two that
  are equally near, with \<open>f\<close> digits after the point; \<open>Number\<close> reads that decimal back.
  From \<open>10 ^ 21\<close> on, and for \<open>NaN\<close> and the infinities, the number comes back as
  it is.
\<close>

definition toFixed :: "nat \<Rightarrow> jsnum \<Rightarrow> jsnum" where
  "toFixed f x =
     (case x of
        Fin v \<Rightarrow>
          if 10 ^ 21 \<le> \<bar>v\<bar> then Fin v
          else (let r = fl (of_int \<lfloor>\<bar>v\<bar> * 10 ^ f + 1 / 2\<rfloor> / 10 ^ f)
                in if v < 0 then js_neg r else r)
      | _ \<Rightarrow> x)"

text \<open>\<open>sum + x\<close> over a list from 0, as \<open>reduce\<close> does it.\<close>

definition js_sum :: "jsnum list \<Rightarrow> jsnum" where
  "js_sum xs = foldl js_add (Fin 0) xs"

section \<open>JavaScript strings\<close>

text \<open>
  A string is a sequence of code units, and the strings of the model are those whose code
  units are below 256: a \<open>char\<close> is such a code unit. \<open>take\<close> and \<open>drop\<close> are then
  \<open>slice\<close>, and the order of \<open>string\<close> (by code unit, a proper prefix first) is that
  of \<open><\<close> and \<open><=\<close> on strings.
\<close>

definition is_digit :: "char \<Rightarrow> bool" where
  "is_digit c = (c \<in> set ''0123456789'')"

text \<open>White space and line terminators, as far as they are code units below 256.\<close>

definition is_space :: "char \<Rightarrow> bool" where
  "is_space c =
     (c \<in> set [CHR 0x09, CHR 0x0A, CHR 0x0B, CHR 0x0C, CHR 0x0D, CHR 0x20, CHR 0xA0])"

definition digit_val :: "char \<Rightarrow> int" where
  "digit_val c =
     (case map_of (zip ''0123456789'' [0, 1, 2, 3, 4, 5, 6, 7, 8, 9]) c of
        None \<Rightarrow> 0 | Some n \<Rightarrow> n)"

definition digits_val :: "string \<Rightarrow> int" where
  "digits_val ds = foldl (\<lambda>a c. 10 * a + digit_val c) 0 ds"

text \<open>\<open>String.prototype.trim\<close>\<close>

definition trim :: "string \<Rightarrow> string" where
  "trim s = rev (dropWhile is_space (rev (dropWhile is_space s)))"

fun starts_with :: "string \<Rightarrow> string \<Rightarrow> bool" where
  "starts_with s [] = True"
| "starts_with [] (p # ps) = False"
| "starts_with (c # cs) (p # ps) = (c = p \<and> starts_with cs ps)"

text \<open>\<open>s.includes(sub)\<close>\<close>

fun includes_str :: "string \<Rightarrow> string \<Rightarrow> bool" where
  "includes_str [] sub = (sub = [])"
| "includes_str (c # cs) sub = (starts_with (c # cs) sub \<or> includes_str cs sub)"

text \<open>
  \<open>String.prototype.toLowerCase\<close>: below 256 the capital letters are \<open>A\<close> to \<open>Z\<close>
  and \<open>0xC0\<close> to \<open>0xDE\<close> without \<open>0xD7\<close>, each 32 below its small letter.
\<close>

definition lower_char :: "char \<Rightarrow> char" where
  "lower_char c =
     (let n = (of_char c :: nat)
      in if (65 \<le> n \<and> n \<le> 90) \<or> (192 \<le> n \<and> n \<le> 222 \<and> n \<noteq> 215)
         then char_of (n + 32) else c)"

definition toLowerCase :: "string \<Rightarrow> string" where
  "toLowerCase s = map lower_char s"

text \<open>Truthiness of a string-valued property: absent, \<open>null\<close> and \<open>''\<close> are falsy.\<close>

definition truthy :: "string option \<Rightarrow> bool" where
  "truthy s = (case s of None \<Rightarrow> False | Some t \<Rightarrow> t \<noteq> [])"

text \<open>\<open>s || d\<close> on a string-valued property.\<close>

definition str_or :: "string option \<Rightarrow> string \<Rightarrow> string" where
  "str_or s d = (case s of None \<Rightarrow> d | Some t \<Rightarrow> if t = [] then d else t)"

definition digit_char :: "nat \<Rightarrow> char" where
  "digit_char n = ''0123456789'' ! n"

text \<open>\<open>String(n)\<close> for a non-negative integer.\<close>

function show_nat :: "nat \<Rightarrow> string" where
  "show_nat n = (if n < 10 then [digit_char n] else show_nat (n div 10) @ [digit_char (n mod 10)])"
  by pat_completeness auto
termination
  by (relation "measure (\<lambda>n. n)") auto

declare show_nat.simps [simp del]

definition show_int :: "int \<Rightarrow> string" where
  "show_int i = (if i < 0 then CHR ''-'' # show_nat (nat (- i)) else show_nat (nat i))"

text \<open>\<open>String(n).padStart(2, '0')\<close>\<close>

definition padStart2 :: "nat \<Rightarrow> string" where
  "padStart2 n = (let s = show_nat n in replicate (2 - length s) CHR ''0'' @ s)"

section \<open>Reading numbers from strings\<close>

text \<open>A leading sign: the flag says whether it was a minus.\<close>

fun read_sign :: "string \<Rightarrow> bool \<times> string" where
  "read_sign [] = (False, [])"
| "read_sign (c # r) =
     (if c = CHR ''-'' then (True, r) else if c = CHR ''+'' then (False, r) else (False, c # r))"

text \<open>
  The exponent part at the head of a string and what follows it; no exponent, and the
  string untouched, unless an \<open>e\<close> is followed by digits, with or without a sign.
\<close>

definition read_exponent :: "string \<Rightarrow> int \<times> string" where
  "read_exponent s =
     (case s of
        [] \<Rightarrow> (0, s)
      | c # r \<Rightarrow>
          if c = CHR ''e'' \<or> c = CHR ''E'' then
            (let (eneg, r2) = read_sign r; ds = takeWhile is_digit r2
             in if ds = [] then (0, s)
                else (if eneg then - digits_val ds else digits_val ds,
                      dropWhile is_digit r2))
          else (0, s))"

text \<open>
  The longest unsigned decimal literal at the head of a string (digits, a fraction, an
  exponent), as its exact value, and what follows it; \<open>None\<close> when no digit is there.
\<close>

definition read_decimal :: "string \<Rightarrow> (real \<times> string) option" where
  "read_decimal s =
     (let ip = takeWhile is_digit s;
          s3 = dropWhile is_digit s;
          (fp, s4) = (case s3 of
                        [] \<Rightarrow> ([], s3)
                      | c # r \<Rightarrow> if c = CHR ''.''
                                 then (takeWhile is_digit r, dropWhile is_digit r)
                                 else ([], s3))
      in if ip = [] \<and> fp = [] then None
         else
           (let mant = of_int (digits_val ip) + of_int (digits_val fp) / 10 ^ length fp;
                (e, s5) = read_exponent s4
            in Some (if 0 \<le> e then mant * 10 ^ nat e else mant / 10 ^ nat (- e), s5)))"

text \<open>
  A signed literal at the head of a string, \<open>Infinity\<close> included, as a number, and what
  follows it.
\<close>

definition read_number :: "string \<Rightarrow> (jsnum \<times> string) option" where
  "read_number s =
     (let (neg, s2) = read_sign s
      in if starts_with s2 ''Infinity'' then Some (if neg then NInf else PInf, drop 8 s2)
         else (case read_decimal s2 of
                 None \<Rightarrow> None
               | Some (v, rest) \<Rightarrow> Some (fl (if neg then - v else v), rest)))"

text \<open>\<open>parseFloat\<close>: leading white space is skipped, what follows the literal is ignored.\<close>

definition parseFloat :: "string \<Rightarrow> jsnum" where
  "parseFloat s = (case read_number (dropWhile is_space s) of None \<Rightarrow> NaN | Some (x, rest) \<Rightarrow> x)"

definition is_hex_digit :: "char \<Rightarrow> bool" where
  "is_hex_digit c = (c \<in> set ''0123456789abcdefABCDEF'')"

definition hex_digit_val :: "char \<Rightarrow> int" where
  "hex_digit_val c =
     (case map_of (zip ''0123456789abcdefABCDEF''
                     [0, 1, 2, 3, 4, 5, 6, 7, 8, 9, 10, 11, 12, 13, 14, 15, 10, 11, 12, 13, 14, 15]) c
      of None \<Rightarrow> 0 | Some n \<Rightarrow> n)"

definition hex_val :: "string \<Rightarrow> int" where
  "hex_val ds = foldl (\<lambda>a c. 16 * a + hex_digit_val c) 0 ds"

text \<open>
  \<open>parseInt(s)\<close> with no radix: leading white space, a sign, then hexadecimal digits
  after \<open>0x\<close> or decimal digits, and the integer read as a number.
\<close>

definition parseInt :: "string \<Rightarrow> jsnum" where
  "parseInt s =
     (let (neg, s2) = read_sign (dropWhile is_space s);
          hex = (starts_with s2 ''0x'' \<or> starts_with s2 ''0X'');
          ds = (if hex then takeWhile is_hex_digit (drop 2 s2) else takeWhile is_digit s2);
          n = (if hex then hex_val ds else digits_val ds)
      in if ds = [] then NaN else fl (if neg then - of_int n else of_int n))"

text \<open>A literal in another radix: digits below the radix only, and at least one.\<close>

definition radix_literal :: "int \<Rightarrow> string \<Rightarrow> jsnum" where
  "radix_literal b ds =
     (if ds \<noteq> [] \<and> list_all (\<lambda>c. is_hex_digit c \<and> hex_digit_val c < b) ds
      then fl (of_int (foldl (\<lambda>a c. b * a + hex_digit_val c) 0 ds))
      else NaN)"

text \<open>
  \<open>Number(s)\<close> on a string, which is how \<open>-\<close> reads a string operand: white space
  around the literal is dropped, the empty string is 0, and the whole of what is left must
  be one literal.
\<close>

definition to_number :: "string \<Rightarrow> jsnum" where
  "to_number s =
     (let t = trim s
      in if t = [] then Fin 0
         else if starts_with t ''0x'' \<or> starts_with t ''0X'' then radix_literal 16 (drop 2 t)
         else if starts_with t ''0o'' \<or> starts_with t ''0O'' then radix_literal 8 (drop 2 t)
         else if starts_with t ''0b'' \<or> starts_with t ''0B'' then radix_literal 2 (drop 2 t)
         else (case read_number t of
                 None \<Rightarrow> NaN
               | Some (x, rest) \<Rightarrow> if rest = [] then x else NaN))"

section \<open>Sorting\<close>

text \<open>
  \<open>Array.prototype.sort\<close> reads the sign of what the comparator returns, a \<open>NaN\<close> as 0.
\<close>

definition cmp_lt :: "('a \<Rightarrow> 'a \<Rightarrow> jsnum) \<Rightarrow> 'a \<Rightarrow> 'a \<Rightarrow> bool" where
  "cmp_lt cmp a b = js_lt (cmp a b) (Fin 0)"

definition cmp_gt :: "('a \<Rightarrow> 'a \<Rightarrow> jsnum) \<Rightarrow> 'a \<Rightarrow> 'a \<Rightarrow> bool" where
  "cmp_gt cmp a b = js_lt (Fin 0) (cmp a b)"

definition cmp_eq :: "('a \<Rightarrow> 'a \<Rightarrow> jsnum) \<Rightarrow> 'a \<Rightarrow> 'a \<Rightarrow> bool" where
  "cmp_eq cmp a b = (cmp a b = Fin 0)"

text \<open>
  A consistent comparator for a set of values, as ECMAScript defines it: never \<open>NaN\<close>,
  and \<open>=\<close>, \<open><\<close> and \<open>>\<close> by its sign are reflexive, symmetric and transitive as below.
\<close>

definition consistent :: "('a \<Rightarrow> 'a \<Rightarrow> jsnum) \<Rightarrow> 'a set \<Rightarrow> bool" where
  "consistent cmp S \<longleftrightarrow>
     (\<forall>a\<in>S. \<forall>b\<in>S. \<forall>c\<in>S.
        cmp a b \<noteq> NaN \<and>
        cmp_eq cmp a a \<and>
        (cmp_eq cmp a b \<longrightarrow> cmp_eq cmp b a) \<and>
        (cmp_eq cmp a b \<and> cmp_eq cmp b c \<longrightarrow> cmp_eq cmp a c) \<and>
        (cmp_lt cmp a b \<and> cmp_lt cmp b c \<longrightarrow> cmp_lt cmp a c) \<and>
        (cmp_gt cmp a b \<and> cmp_gt cmp b c \<longrightarrow> cmp_gt cmp a c))"

text \<open>
  With a consistent comparator the outcome of \<open>sort\<close> is fixed: ascending, and elements
  that compare equal in the order they had. That is what this insertion sort computes. With
  any other comparator the order is the engine's choice.
\<close>

fun insert_by :: "('a \<Rightarrow> 'a \<Rightarrow> jsnum) \<Rightarrow> 'a \<Rightarrow> 'a list \<Rightarrow> 'a list" where
  "insert_by cmp x [] = [x]"
| "insert_by cmp x (y # ys) = (if cmp_gt cmp x y then y # insert_by cmp x ys else x # y # ys)"

fun js_sort :: "('a \<Rightarrow> 'a \<Rightarrow> jsnum) \<Rightarrow> 'a list \<Rightarrow> 'a list" where
  "js_sort cmp [] = []"
| "js_sort cmp (x # xs) = insert_by cmp x (js_sort cmp xs)"

text \<open>
  The code's calls of \<open>sort\<close> take the engine's function as a parameter \<open>srt\<close>. What
  ECMAScript promises of it is \<open>engine_sort\<close>.
\<close>

definition engine_sort :: "(('a \<Rightarrow> 'a \<Rightarrow> jsnum) \<Rightarrow> 'a list \<Rightarrow> 'a list) \<Rightarrow> bool" where
  "engine_sort srt \<longleftrightarrow> (\<forall>cmp xs. consistent cmp (set xs) \<longrightarrow> srt cmp xs = js_sort cmp xs)"

text \<open>
  \<open>a.localeCompare(b)\<close> is a parameter \<open>lc\<close> as well, negative, zero or positive. On
  strings of digits of one length, such as the vendor's time stamps, it is the order by
  code units in every locale.
\<close>

definition compare_units :: "string \<Rightarrow> string \<Rightarrow> int" where
  "compare_units a b = (if a < b then - 1 else if a = b then 0 else 1)"

section \<open>Telemetry items and the daily delta engine\<close>

text \<open>
  An element of the vendor's data array: its \<open>time_stamp\<close> and its other properties in
  enumeration order, each value in the string form that \<open>parseFloat\<close> reads.
\<close>

record raw_item =
  time_stamp :: string
  props :: "(string \<times> string) list"

record daily_point =
  date :: string
  dailyKwh :: jsnum
  cumulativeKwh :: jsnum

text \<open>\<open>Object.keys(item).find(key => key !== 'time_stamp')\<close>, with the value under it.\<close>

definition valueKey :: "raw_item \<Rightarrow> (string \<times> string) option" where
  "valueKey item = List.find (\<lambda>kv. fst kv \<noteq> ''time_stamp'') (props item)"

text \<open>\<open>(parseFloat(item[valueKey]) || 0) / 1000\<close>\<close>

definition currentKwh :: "string \<Rightarrow> jsnum" where
  "currentKwh v = js_div (num_or (parseFloat v) (Fin 0)) (Fin 1000)"

text \<open>
  The reading of an item: \<open>currentKwh\<close> under \<open>if (valueKey)\<close>, which fails when the
  item has no other property and when the name of the first one is the empty string.
\<close>

definition reading :: "raw_item \<Rightarrow> jsnum option" where
  "reading item =
     (case valueKey item of
        None \<Rightarrow> None
      | Some (k, v) \<Rightarrow> if k = [] then None else Some (currentKwh v))"

text \<open>\<open>(a, b) => a.time_stamp.localeCompare(b.time_stamp)\<close>\<close>

definition by_time_stamp :: "(string \<Rightarrow> string \<Rightarrow> int) \<Rightarrow> raw_item \<Rightarrow> raw_item \<Rightarrow> jsnum" where
  "by_time_stamp lc a b = Fin (of_int (lc (time_stamp a) (time_stamp b)))"

text \<open>\<open>[...dataArray].sort((a, b) => a.time_stamp.localeCompare(b.time_stamp))\<close>\<close>

definition sortedData ::
  "((raw_item \<Rightarrow> raw_item \<Rightarrow> jsnum) \<Rightarrow> raw_item list \<Rightarrow> raw_item list)
     \<Rightarrow> (string \<Rightarrow> string \<Rightarrow> int) \<Rightarrow> raw_item list \<Rightarrow> raw_item list" where
  "sortedData srt lc dataArray = srt (by_time_stamp lc) dataArray"

text \<open>
  One iteration of \<open>sortedData.forEach((item, idx) => ...)\<close> in the cron handler and in
  \<open>fetchPerformanceData\<close>; the state is \<open>previousValue\<close> and \<open>dailyData\<close>.
\<close>

fun delta_step :: "jsnum \<times> daily_point list \<Rightarrow> nat \<times> raw_item \<Rightarrow> jsnum \<times> daily_point list" where
  "delta_step (previousValue, dailyData) (idx, item) =
     (case reading item of
        None \<Rightarrow> (previousValue, dailyData)
      | Some cur \<Rightarrow>
          if idx = 0 then (cur, dailyData)
          else (cur,
                dailyData @ [\<lparr>date = time_stamp item,
                              dailyKwh = js_max (Fin 0) (js_sub cur previousValue),
                              cumulativeKwh = cur\<rparr>]))"

definition delta_walk :: "raw_item list \<Rightarrow> daily_point list" where
  "delta_walk items = snd (foldl delta_step (Fin 0, []) (enumerate 0 items))"

definition dailyData_of ::
  "((raw_item \<Rightarrow> raw_item \<Rightarrow> jsnum) \<Rightarrow> raw_item list \<Rightarrow> raw_item list)
     \<Rightarrow> (string \<Rightarrow> string \<Rightarrow> int) \<Rightarrow> raw_item list \<Rightarrow> daily_point list" where
  "dailyData_of srt lc dataArray = delta_walk (sortedData srt lc dataArray)"

section \<open>The yearly formatter of the all-graph page\<close>

record yearly_point =
  year :: string
  yearNum :: jsnum
  yearlyKwh :: jsnum
  cumulativeKwh_y :: jsnum
  serialNumber :: string

text \<open>The range of years of the page's state, two integers.\<close>

record year_range =
  startYear :: int
  endYear :: int

datatype js_error = TypeError

text \<open>\<open>yearNum >= range.startYear && yearNum <= range.endYear\<close>\<close>

definition in_range :: "year_range \<Rightarrow> jsnum \<Rightarrow> bool" where
  "in_range rng n = (js_le (Fin (of_int (startYear rng))) n \<and> js_le n (Fin (of_int (endYear rng))))"

text \<open>
  The body of \<open>sortedData.forEach(item => ...)\<close> in \<open>formatYearlyData\<close>; the state is
  \<open>previousCumulativeKwh\<close> and \<open>result\<close>.
\<close>

fun yearly_step ::
  "string \<Rightarrow> year_range \<Rightarrow> jsnum \<times> yearly_point list \<Rightarrow> raw_item \<Rightarrow> jsnum \<times> yearly_point list" where
  "yearly_step sn rng (previousCumulativeKwh, result) item =
     (case reading item of
        None \<Rightarrow> (previousCumulativeKwh, result)
      | Some cumulative \<Rightarrow>
          (let safeYearlyKwh = js_max (Fin 0) (js_sub cumulative previousCumulativeKwh);
               n = parseInt (time_stamp item)
           in (cumulative,
               if in_range rng n
               then result @ [\<lparr>year = time_stamp item, yearNum = n,
                                yearlyKwh = safeYearlyKwh, cumulativeKwh_y = cumulative,
                                serialNumber = sn\<rparr>]
               else result)))"

definition yearly_walk :: "string \<Rightarrow> year_range \<Rightarrow> raw_item list \<Rightarrow> yearly_point list" where
  "yearly_walk sn rng items = snd (foldl (yearly_step sn rng) (Fin 0, []) items)"

text \<open>The two comparators of \<open>formatYearlyData\<close>.\<close>

definition by_year :: "raw_item \<Rightarrow> raw_item \<Rightarrow> jsnum" where
  "by_year a b = js_sub (parseInt (time_stamp a)) (parseInt (time_stamp b))"

definition by_yearNum :: "yearly_point \<Rightarrow> yearly_point \<Rightarrow> jsnum" where
  "by_yearNum a b = js_sub (yearNum a) (yearNum b)"

text \<open>
  \<open>formatYearlyData(apiData, serialNumber, range)\<close>. \<open>result_data\<close> is the response's
  object of objects, as association lists in key order; an empty \<open>result_data\<close> makes
  \<open>Object.keys(undefined)\<close> throw. \<open>srt_items\<close> and \<open>srt_points\<close> are the engine's
  \<open>sort\<close> on the items and on the points.
\<close>

definition formatYearlyData ::
  "((raw_item \<Rightarrow> raw_item \<Rightarrow> jsnum) \<Rightarrow> raw_item list \<Rightarrow> raw_item list)
     \<Rightarrow> ((yearly_point \<Rightarrow> yearly_point \<Rightarrow> jsnum) \<Rightarrow> yearly_point list \<Rightarrow> yearly_point list)
     \<Rightarrow> (string \<times> (string \<times> raw_item list) list) list option \<Rightarrow> string \<Rightarrow> year_range
     \<Rightarrow> js_error + yearly_point list" where
  "formatYearlyData srt_items srt_points result_data sn rng =
     (case result_data of
        None \<Rightarrow> Inr []
      | Some [] \<Rightarrow> Inl TypeError
      | Some ((psKey, inner) # _) \<Rightarrow>
          (case inner of
             [] \<Rightarrow> Inr []
           | (dataPoint, dataArray) # _ \<Rightarrow>
               if dataArray = [] then Inr []
               else Inr (srt_points by_yearNum
                           (yearly_walk sn rng (srt_items by_year dataArray)))))"

text \<open>The history request of \<open>handleSyncAllSolar\<close>: its \<open>start_time\<close> and \<open>end_time\<close>.\<close>

definition yearly_request_window :: "year_range \<Rightarrow> string \<times> string" where
  "yearly_request_window rng = (show_int (startYear rng), show_int (endYear rng))"

section \<open>Responses of the vendor and records of the pipeline\<close>

text \<open>
  What an awaited \<open>fetch\<close> followed by \<open>.json()\<close> gives: an exception with its message,
  a response that is not \<open>ok\<close> with its status, or the parsed body.
\<close>

datatype 'a http_result = Threw string | Status nat | Json 'a

text \<open>
  The device response: each entry of \<open>device_point_list\<close> is what
  \<open>p?.device_point?.ps_key\<close> reads from it.
\<close>

record device_response =
  d_result_code :: string
  d_result_msg :: "string option"
  device_point_list :: "string option list option"

record energy_response =
  e_result_code :: string
  e_result_msg :: "string option"
  e_result_data :: "(string \<times> (string \<times> raw_item list) list) list option"

text \<open>
  An inverter of the roster. \<open>row_id\<close> is the property \<open>id\<close>, which only the
  weekly-report page sets; \<open>None\<close> is an object without it. The property \<open>selected\<close>
  of that page is not read by the code modelled here and is left out.
\<close>

record inverter =
  row_id :: "nat option"
  serialNo :: string
  inverterId :: string
  beneficiaryName :: string
  capacity :: jsnum

text \<open>
  The record of the cron handler and the row of the sync payload;
  \<open>lifetimeGeneration = None\<close> is an object without that property.
\<close>

record performance = inverter +
  totalKwh :: jsnum
  avgDailyKwh :: jsnum
  specYield :: jsnum
  daysInRange :: int
  lifetimeGeneration :: "jsnum option"

text \<open>\<open>list.find(p => p?.device_point?.ps_key)\<close> and the key of the entry found.\<close>

definition find_ps_key :: "string option list \<Rightarrow> string option" where
  "find_ps_key l = (case List.find truthy l of None \<Rightarrow> None | Some p \<Rightarrow> p)"

text \<open>
  \<open>Object.keys(result_data)[0]\<close>, the first key under it and the array there; nothing when
  the first key is empty or the inner object has no key.
\<close>

definition first_dataArray ::
  "(string \<times> (string \<times> raw_item list) list) list \<Rightarrow> raw_item list option" where
  "first_dataArray rd =
     (case rd of
        [] \<Rightarrow> None
      | (psKeyData, inner) # _ \<Rightarrow>
          if psKeyData = [] then None
          else (case inner of [] \<Rightarrow> None | (dataPoint, dataArray) # _ \<Rightarrow> Some dataArray))"

text \<open>
  \<open>dailyData.filter(item => ...)\<close>: the first eight characters of the date against the
  bounds of the caller's window, compared as strings.
\<close>

definition filteredDailyData :: "string \<Rightarrow> string \<Rightarrow> daily_point list \<Rightarrow> daily_point list" where
  "filteredDailyData startStr endStr dailyData =
     filter (\<lambda>item. startStr \<le> take 8 (date item) \<and> take 8 (date item) \<le> endStr) dailyData"

text \<open>\<open>filteredDailyData.reduce((sum, day) => sum + day.dailyKwh, 0)\<close>\<close>

definition sum_dailyKwh :: "daily_point list \<Rightarrow> jsnum" where
  "sum_dailyKwh ds = foldl (\<lambda>sum day. js_add sum (dailyKwh day)) (Fin 0) ds"

section \<open>The cron handler, per inverter\<close>

text \<open>
  The locals \<open>totalKwh\<close> and \<open>lifetimeGeneration\<close> after the energy response has been
  read; both stay 0 unless the response has code \<open>"1"\<close> and an array.
\<close>

definition cron_energy ::
  "((raw_item \<Rightarrow> raw_item \<Rightarrow> jsnum) \<Rightarrow> raw_item list \<Rightarrow> raw_item list)
     \<Rightarrow> (string \<Rightarrow> string \<Rightarrow> int) \<Rightarrow> string \<Rightarrow> string \<Rightarrow> energy_response
     \<Rightarrow> jsnum \<times> jsnum" where
  "cron_energy srt lc dateRangeStartStr dateRangeEndStr energyData =
     (if e_result_code energyData = ''1'' then
        (case e_result_data energyData of
           None \<Rightarrow> (Fin 0, Fin 0)
         | Some rd \<Rightarrow>
             (case first_dataArray rd of
                None \<Rightarrow> (Fin 0, Fin 0)
              | Some dataArray \<Rightarrow>
                  (let dailyData = dailyData_of srt lc dataArray
                   in (sum_dailyKwh (filteredDailyData dateRangeStartStr dateRangeEndStr dailyData),
                       if dailyData \<noteq> [] then cumulativeKwh (last dailyData) else Fin 0))))
      else (Fin 0, Fin 0))"

definition cron_daysInRange :: int where
  "cron_daysInRange = 8"

text \<open>The local \<open>avgDailyKwh\<close> of the cron handler.\<close>

definition cron_avgDailyKwh :: "jsnum \<Rightarrow> jsnum" where
  "cron_avgDailyKwh tot = js_div tot (Fin (of_int cron_daysInRange))"

text \<open>The local \<open>specYield\<close>, in the cron handler and in \<open>fetchPerformanceData\<close>.\<close>

definition specYield_of :: "jsnum \<Rightarrow> jsnum \<Rightarrow> jsnum" where
  "specYield_of avg cap = (if js_lt (Fin 0) cap then js_div avg cap else Fin 0)"

text \<open>The object returned for an inverter whose two requests succeeded.\<close>

definition cron_record :: "inverter \<Rightarrow> jsnum \<times> jsnum \<Rightarrow> performance" where
  "cron_record ivt en =
     (let tot = fst en; avg = cron_avgDailyKwh tot; spec = specYield_of avg (capacity ivt)
      in \<lparr>row_id = None, serialNo = serialNo ivt, inverterId = inverterId ivt,
          beneficiaryName = beneficiaryName ivt, capacity = capacity ivt,
          totalKwh = toFixed 2 tot, avgDailyKwh = toFixed 2 avg,
          specYield = toFixed 3 spec, daysInRange = cron_daysInRange,
          lifetimeGeneration = Some (snd en)\<rparr>)"

text \<open>
  The body of \<open>batch.map(async (inverter) => ...)\<close>: \<open>None\<close> is the \<open>null\<close> that
  \<open>batchResults.filter(Boolean)\<close> removes. Every exception ends there too.
\<close>

definition cron_fetch_one ::
  "((raw_item \<Rightarrow> raw_item \<Rightarrow> jsnum) \<Rightarrow> raw_item list \<Rightarrow> raw_item list)
     \<Rightarrow> (string \<Rightarrow> string \<Rightarrow> int) \<Rightarrow> string \<Rightarrow> string \<Rightarrow> inverter
     \<Rightarrow> device_response http_result \<Rightarrow> energy_response http_result \<Rightarrow> performance option" where
  "cron_fetch_one srt lc dateRangeStartStr dateRangeEndStr ivt deviceRes energyRes =
     (case deviceRes of
        Threw m \<Rightarrow> None
      | Status st \<Rightarrow> None
      | Json deviceData \<Rightarrow>
          (case device_point_list deviceData of
             None \<Rightarrow> None
           | Some l \<Rightarrow>
               if \<not> truthy (find_ps_key l) then None
               else (case energyRes of
                       Threw m \<Rightarrow> None
                     | Status st \<Rightarrow> None
                     | Json energyData \<Rightarrow>
                         Some (cron_record ivt
                                 (cron_energy srt lc dateRangeStartStr dateRangeEndStr
                                    energyData)))))"

text \<open>One batch: the records of the inverters that gave one, in order.\<close>

definition cron_batch ::
  "((raw_item \<Rightarrow> raw_item \<Rightarrow> jsnum) \<Rightarrow> raw_item list \<Rightarrow> raw_item list)
     \<Rightarrow> (string \<Rightarrow> string \<Rightarrow> int) \<Rightarrow> string \<Rightarrow> string
     \<Rightarrow> (inverter \<times> device_response http_result \<times> energy_response http_result) list
     \<Rightarrow> performance list" where
  "cron_batch srt lc s e batch =
     List.map_filter (\<lambda>(ivt, d, en). cron_fetch_one srt lc s e ivt d en) batch"

section \<open>The weekly-report page, per inverter\<close>

record ui_performance = performance +
  psKey :: "string option"
  dailyData :: "daily_point list"
  error :: "string option"

text \<open>
  How the key resolution ends: an object returned at once, an exception, or the key.
  Elsewhere an exception is the left summand.
\<close>

datatype 'a step = Return ui_performance | Throw string | Continue 'a

text \<open>The error objects of \<open>fetchPerformanceData\<close>: the inverter's fields and zeroed metrics.\<close>

definition error_record ::
  "inverter \<Rightarrow> string option \<Rightarrow> string \<Rightarrow> int \<Rightarrow> jsnum option \<Rightarrow> ui_performance" where
  "error_record ivt pk msg days lg =
     \<lparr>row_id = row_id ivt, serialNo = serialNo ivt, inverterId = inverterId ivt,
      beneficiaryName = beneficiaryName ivt, capacity = capacity ivt,
      totalKwh = Fin 0, avgDailyKwh = Fin 0, specYield = Fin 0, daysInRange = days,
      lifetimeGeneration = lg, psKey = pk, dailyData = [], error = Some msg\<rparr>"

text \<open>The message thrown for a response that is not \<open>ok\<close>.\<close>

definition status_message :: "string \<Rightarrow> nat \<Rightarrow> string" where
  "status_message what st =
     (if st = 401 \<or> st = 403 then ''Session expired. Please login again.''
      else ''Failed to fetch '' @ what @ '' data: '' @ show_nat st)"

text \<open>
  The key read from the device response, or the error object returned at once when it
  holds none.
\<close>

definition ui_device_key ::
  "inverter \<Rightarrow> int \<Rightarrow> device_response http_result \<Rightarrow> string step" where
  "ui_device_key ivt days deviceRes =
     (case deviceRes of
        Threw m \<Rightarrow> Throw m
      | Status st \<Rightarrow> Throw (status_message ''device'' st)
      | Json deviceData \<Rightarrow>
          (case device_point_list deviceData of
             None \<Rightarrow>
               Return (error_record ivt None
                         (str_or (d_result_msg deviceData) ''Invalid device response'') days None)
           | Some l \<Rightarrow>
               if d_result_code deviceData = ''1'' then
                 (case find_ps_key l of
                    None \<Rightarrow> Return (error_record ivt None ''No PS Key found'' days None)
                  | Some pk \<Rightarrow>
                      if pk \<noteq> [] then Continue pk
                      else Return (error_record ivt None ''No PS Key found'' days None))
               else Return (error_record ivt None
                              (str_or (d_result_msg deviceData) ''Invalid device response'')
                              days None)))"

text \<open>
  The key of the inverter: the cached one, or the one of the device response, which is
  requested only when the cache has none.
\<close>

definition ui_resolve_key ::
  "inverter \<Rightarrow> int \<Rightarrow> (string \<rightharpoonup> string) \<Rightarrow> device_response http_result \<Rightarrow> string step" where
  "ui_resolve_key ivt days psKeyCache deviceRes =
     (case psKeyCache (inverterId ivt) of
        None \<Rightarrow> ui_device_key ivt days deviceRes
      | Some k \<Rightarrow> if k \<noteq> [] then Continue k else ui_device_key ivt days deviceRes)"

text \<open>\<open>dateRange.startDate.replace(/-/g, '')\<close>\<close>

definition remove_dashes :: "string \<Rightarrow> string" where
  "remove_dashes s = filter (\<lambda>c. c \<noteq> CHR ''-'') s"

text \<open>The locals \<open>dailyData\<close> and \<open>totalKwh\<close> of \<open>fetchPerformanceData\<close>.\<close>

definition ui_energy ::
  "((raw_item \<Rightarrow> raw_item \<Rightarrow> jsnum) \<Rightarrow> raw_item list \<Rightarrow> raw_item list)
     \<Rightarrow> (string \<Rightarrow> string \<Rightarrow> int) \<Rightarrow> string \<Rightarrow> string
     \<Rightarrow> (string \<times> (string \<times> raw_item list) list) list \<Rightarrow> daily_point list \<times> jsnum" where
  "ui_energy srt lc startDate endDate rd =
     (case first_dataArray rd of
        None \<Rightarrow> ([], Fin 0)
      | Some dataArray \<Rightarrow>
          (let dd = dailyData_of srt lc dataArray
           in (dd, sum_dailyKwh
                     (filteredDailyData (remove_dashes startDate) (remove_dashes endDate) dd))))"

text \<open>The object returned when both responses were good.\<close>

definition ui_record ::
  "inverter \<Rightarrow> string \<Rightarrow> int \<Rightarrow> daily_point list \<times> jsnum \<Rightarrow> ui_performance" where
  "ui_record ivt pk days en =
     (let dd = fst en; tot = snd en;
          avg = (if days > 0 then js_div tot (Fin (of_int days)) else Fin 0);
          spec = specYield_of avg (capacity ivt)
      in \<lparr>row_id = row_id ivt, serialNo = serialNo ivt, inverterId = inverterId ivt,
          beneficiaryName = beneficiaryName ivt, capacity = capacity ivt,
          totalKwh = toFixed 2 tot, avgDailyKwh = toFixed 2 avg, specYield = toFixed 3 spec,
          daysInRange = days,
          lifetimeGeneration = Some (if dd \<noteq> [] then cumulativeKwh (last dd) else Fin 0),
          psKey = Some pk, dailyData = dd, error = None\<rparr>)"

definition ui_read_energy ::
  "((raw_item \<Rightarrow> raw_item \<Rightarrow> jsnum) \<Rightarrow> raw_item list \<Rightarrow> raw_item list)
     \<Rightarrow> (string \<Rightarrow> string \<Rightarrow> int) \<Rightarrow> inverter \<Rightarrow> string \<Rightarrow> int \<Rightarrow> string \<Rightarrow> string
     \<Rightarrow> energy_response http_result \<Rightarrow> string + ui_performance" where
  "ui_read_energy srt lc ivt pk days startDate endDate energyRes =
     (case energyRes of
        Threw m \<Rightarrow> Inl m
      | Status st \<Rightarrow> Inl (status_message ''energy'' st)
      | Json energyData \<Rightarrow>
          (case e_result_data energyData of
             None \<Rightarrow>
               Inr (error_record ivt (Some pk)
                         (str_or (e_result_msg energyData) ''Invalid energy data'') days None)
           | Some rd \<Rightarrow>
               if e_result_code energyData = ''1''
               then Inr (ui_record ivt pk days (ui_energy srt lc startDate endDate rd))
               else Inr (error_record ivt (Some pk)
                              (str_or (e_result_msg energyData) ''Invalid energy data'')
                              days None)))"

text \<open>
  The body of \<open>batch.map(async (inverterId) => ...)\<close> with its \<open>catch\<close>: the record, if
  any, and the key cache afterwards. \<open>days\<close> is what \<open>calculateDaysInRange()\<close> gave. The
  clearing of the token on status 401 and 403 is not modelled.
\<close>

definition ui_fetch_one ::
  "((raw_item \<Rightarrow> raw_item \<Rightarrow> jsnum) \<Rightarrow> raw_item list \<Rightarrow> raw_item list)
     \<Rightarrow> (string \<Rightarrow> string \<Rightarrow> int) \<Rightarrow> inverter list \<Rightarrow> string \<Rightarrow> string \<Rightarrow> int
     \<Rightarrow> (string \<rightharpoonup> string) \<Rightarrow> string
     \<Rightarrow> device_response http_result \<Rightarrow> energy_response http_result
     \<Rightarrow> ui_performance option \<times> (string \<rightharpoonup> string)" where
  "ui_fetch_one srt lc inverters startDate endDate days psKeyCache iid deviceRes energyRes =
     (case List.find (\<lambda>i. inverterId i = iid) inverters of
        None \<Rightarrow> (None, psKeyCache)
      | Some ivt \<Rightarrow>
          (case ui_resolve_key ivt days psKeyCache deviceRes of
             Return r \<Rightarrow> (Some r, psKeyCache)
           | Throw m \<Rightarrow> (Some (error_record ivt None m days (Some (Fin 0))), psKeyCache)
           | Continue pk \<Rightarrow>
               (let cache = psKeyCache(iid \<mapsto> pk)
                in (case ui_read_energy srt lc ivt pk days startDate endDate energyRes of
                      Inr r \<Rightarrow> (Some r, cache)
                    | Inl m \<Rightarrow>
                        (Some (error_record ivt None m days (Some (Fin 0))), cache)))))"

section \<open>The roster loaders\<close>

text \<open>
  A row of the sheet is the list of its cells, each as the string
  \<open>String(v || '')\<close> that the loaders read (so a falsy cell is the empty string, in the
  \<open>row.c\<close> shape and in the array shape alike; a row of neither shape has no cell).
  \<open>cell\<close> reads a position, past the end as the empty string.
\<close>

definition cell :: "string list \<Rightarrow> nat \<Rightarrow> string" where
  "cell rowValues i = (if i < length rowValues then rowValues ! i else [])"

text \<open>The callback of \<open>rows.forEach((row, index) => ...)\<close> in the cron handler.\<close>

definition cron_load_row :: "nat \<Rightarrow> string list \<Rightarrow> inverter option" where
  "cron_load_row index rowValues =
     (if index = 0 then None
      else
        (let sn = trim (cell rowValues 0);
             iid = trim (cell rowValues 1);
             name = trim (cell rowValues 2);
             cap = num_or (parseFloat (trim (cell rowValues 3))) (Fin 1)
         in if iid \<noteq> [] \<and> name \<noteq> [] then
              Some \<lparr>row_id = None,
                    serialNo = (if sn \<noteq> [] then sn else ''S'' @ show_nat index),
                    inverterId = iid, beneficiaryName = name, capacity = cap\<rparr>
            else None))"

text \<open>The same callback in \<open>fetchInverterList\<close> of the weekly-report page, which adds \<open>id\<close>.\<close>

definition ui_load_row :: "nat \<Rightarrow> string list \<Rightarrow> inverter option" where
  "ui_load_row index rowValues =
     (if index = 0 then None
      else
        (let sn = trim (cell rowValues 0);
             iid = trim (cell rowValues 1);
             name = trim (cell rowValues 2);
             capacityStr = trim (cell rowValues 3);
             cap = num_or (parseFloat capacityStr) (Fin 1)
         in if iid \<noteq> [] \<and> name \<noteq> [] then
              Some \<lparr>row_id = Some index,
                    serialNo = (if sn \<noteq> [] then sn else ''S'' @ show_nat index),
                    inverterId = iid, beneficiaryName = name, capacity = cap\<rparr>
            else None))"

record sheet_entry =
  entry_serialNo :: string
  entry_inverterId :: string
  entry_beneficiaryName :: string

text \<open>The callback in \<open>fetchInverterDataFromSheet\<close> of the all-graph page.\<close>

definition allgraph_load_row :: "nat \<Rightarrow> string list \<Rightarrow> sheet_entry option" where
  "allgraph_load_row index rowValues =
     (if index = 0 then None
      else
        (let sn = trim (cell rowValues 0);
             iid = trim (cell rowValues 1);
             name = trim (cell rowValues 2)
         in if iid \<noteq> [] then
              Some \<lparr>entry_serialNo = (if sn \<noteq> [] then sn else show_nat index),
                    entry_inverterId = iid, entry_beneficiaryName = name\<rparr>
            else None))"

text \<open>\<open>rows.forEach\<close> with a callback that pushes at most one object per row.\<close>

definition load_rows :: "(nat \<Rightarrow> string list \<Rightarrow> 'a option) \<Rightarrow> string list list \<Rightarrow> 'a list" where
  "load_rows f rows = List.map_filter (\<lambda>(index, row). f index row) (enumerate 0 rows)"

text \<open>The roster of the cron handler, which throws on an empty one.\<close>

definition cron_roster :: "string list list \<Rightarrow> string + inverter list" where
  "cron_roster rows =
     (let inverters = load_rows cron_load_row rows
      in if inverters = [] then Inl ''No inverters found in the sheet.'' else Inr inverters)"

section \<open>The sync writer of the weekly-report page\<close>

record sync_request =
  action :: string
  sheetName :: string
  dateRangeStart :: string
  dateRangeEnd :: string
  payload :: "performance list"

record sync_response =
  r_success :: bool
  newRows :: nat
  updatedRows :: nat
  r_error :: "string option"
  r_message :: "string option"

text \<open>
  What a call of \<open>handleSyncCSVFormat\<close> leaves: the object it returns, the POST requests
  it issued and the toasts it showed (message and type). A message is \<open>Plain\<close> text, or
  \<open>Checked\<close>: the check mark U+2713, which is no code unit below 256, and the text after
  it.
\<close>

datatype message = Plain string | Checked string

record sync_outcome =
  success :: bool
  returned_error :: "string option"
  posts :: "sync_request list"
  toasts :: "(message \<times> string) list"

fun split_on :: "char \<Rightarrow> string \<Rightarrow> string list" where
  "split_on c [] = [[]]"
| "split_on c (x # xs) =
     (if x = c then [] # split_on c xs
      else (case split_on c xs of [] \<Rightarrow> [[x]] | w # ws \<Rightarrow> (x # w) # ws))"

text \<open>An element of a destructured array, \<open>undefined\<close> in a template when missing.\<close>

definition part :: "string list \<Rightarrow> nat \<Rightarrow> string" where
  "part ps i = (if i < length ps then ps ! i else ''undefined'')"

definition formatDateToDDMMYYYY :: "string \<Rightarrow> string" where
  "formatDateToDDMMYYYY dateStr =
     (if dateStr = [] then []
      else (let ps = split_on CHR ''-'' dateStr
            in part ps 2 @ ''/'' @ part ps 1 @ ''/'' @ part ps 0))"

text \<open>The object pushed to \<open>syncData\<close> for an item without error.\<close>

definition sync_row :: "int \<Rightarrow> ui_performance \<Rightarrow> performance" where
  "sync_row days item =
     \<lparr>row_id = None,
      serialNo = (if serialNo item \<noteq> [] then serialNo item
                  else ''S'' @ (case row_id item of None \<Rightarrow> ''undefined'' | Some n \<Rightarrow> show_nat n)),
      inverterId = trim (inverterId item),
      beneficiaryName = trim (beneficiaryName item),
      capacity = capacity item,
      totalKwh = totalKwh item, avgDailyKwh = avgDailyKwh item, specYield = specYield item,
      daysInRange = (if daysInRange item \<noteq> 0 then daysInRange item else days),
      lifetimeGeneration =
        Some (case lifetimeGeneration item of None \<Rightarrow> Fin 0 | Some x \<Rightarrow> num_or x (Fin 0))\<rparr>"

definition syncData_of :: "int \<Rightarrow> ui_performance list \<Rightarrow> performance list" where
  "syncData_of days performanceData =
     map (sync_row days) (filter (\<lambda>item. \<not> truthy (error item)) performanceData)"

definition sync_failed :: "string \<Rightarrow> sync_request list \<Rightarrow> sync_outcome" where
  "sync_failed msg ps =
     \<lparr>success = False, returned_error = Some msg, posts = ps,
      toasts = [(Plain ''Syncing data in CSV format to Google Sheets...'', ''info''),
                (Plain (''CSV Sync Failed: '' @ msg), ''error'')]\<rparr>"

text \<open>
  \<open>handleSyncCSVFormat\<close>: \<open>days\<close> is what \<open>calculateDaysInRange()\<close> gives and
  \<open>postResult\<close> what the POST would answer, read only once the request is issued.
\<close>

definition handleSyncCSVFormat ::
  "ui_performance list \<Rightarrow> string \<Rightarrow> string \<Rightarrow> int \<Rightarrow> sync_response http_result
     \<Rightarrow> sync_outcome" where
  "handleSyncCSVFormat performanceData startDate endDate days postResult =
     (if performanceData = [] then
        \<lparr>success = False, returned_error = None, posts = [],
         toasts = [(Plain ''No performance data available to sync'', ''error'')]\<rparr>
      else
        (let syncData = syncData_of days performanceData
         in if syncData = [] then
              sync_failed ''No valid data to sync (all records have errors)'' []
            else
              (let req = \<lparr>action = ''syncCSVFormat'', sheetName = ''Weekly_Performance_Logs'',
                          dateRangeStart = formatDateToDDMMYYYY startDate,
                          dateRangeEnd = formatDateToDDMMYYYY endDate,
                          payload = syncData\<rparr>
               in (case postResult of
                     Threw m \<Rightarrow> sync_failed m [req]
                   | Status st \<Rightarrow> sync_failed (''HTTP error! status: '' @ show_nat st) [req]
                   | Json r \<Rightarrow>
                       if r_success r then
                         \<lparr>success = True, returned_error = None, posts = [req],
                          toasts =
                            [(Plain ''Syncing data in CSV format to Google Sheets...'', ''info''),
                             (Checked
                                ('' Synced '' @ show_nat (length syncData)
                                 @ '' records in CSV format''
                                 @ (if newRows r > 0
                                    then '' ('' @ show_nat (newRows r) @ '' new)'' else [])
                                 @ (if updatedRows r > 0
                                    then '' ('' @ show_nat (updatedRows r) @ '' updated)'' else [])),
                              ''success'')]\<rparr>
                       else sync_failed
                              (str_or (r_error r) (str_or (r_message r) ''Sync failed''))
                              [req]))))"

section \<open>Login with retries\<close>

text \<open>
  What one login request gives: \<open>fetch\<close> rejects with a message; the body is not JSON;
  the response is not \<open>ok\<close> (the body's \<open>result_msg\<close> and the status); or a body with
  \<open>result_code\<close>, \<open>result_msg\<close> and \<open>result_data?.token\<close>.
\<close>

datatype login_reply =
  FetchThrew string
| NotJson
| HttpFail "string option" nat
| Body string "string option" "string option"

datatype attempt_result = Success string | RetryAfter nat | GiveUp string

datatype login_event = Attempt | Wait nat | LoggedIn string | Failed string

text \<open>
  One run of the body of \<open>handleAutoLogin(retryCount)\<close> on the weekly-report page, with the
  environment variables set. \<open>caught\<close> is the \<open>catch\<close> block, where \<open>&&\<close> binds tighter
  than \<open>||\<close>. The guard on \<open>loginLoading\<close> reads the value captured when the callback
  was created, which is the one the first call passed.
\<close>

definition wpr_caught :: "nat \<Rightarrow> string \<Rightarrow> attempt_result" where
  "wpr_caught retryCount m =
     (if (retryCount < 2 \<and> includes_str m ''network'') \<or> includes_str m ''Failed to fetch''
      then RetryAfter 3000 else GiveUp m)"

definition wpr_attempt :: "nat \<Rightarrow> login_reply \<Rightarrow> attempt_result" where
  "wpr_attempt retryCount r =
     (case r of
        FetchThrew m \<Rightarrow> wpr_caught retryCount m
      | NotJson \<Rightarrow> wpr_caught retryCount ''Invalid server response. Please try again.''
      | HttpFail msg st \<Rightarrow>
          wpr_caught retryCount (str_or msg (''Server error ('' @ show_nat st @ '')''))
      | Body code msg token \<Rightarrow>
          if code = ''1'' then
            (if str_or token [] \<noteq> [] then Success (str_or token [])
             else wpr_caught retryCount ''No token received from server'')
          else if (case msg of None \<Rightarrow> False | Some t \<Rightarrow> includes_str (toLowerCase t) ''busy'')
                  \<and> retryCount < 2
          then RetryAfter 2000
          else wpr_caught retryCount (str_or msg ''Login failed with unknown error''))"

text \<open>
  The calls that follow one another through \<open>setTimeout(() => handleAutoLogin(retryCount + 1))\<close>,
  against the replies of the successive requests; the events stop where the replies do.
\<close>

fun wpr_login :: "nat \<Rightarrow> login_reply list \<Rightarrow> login_event list" where
  "wpr_login retryCount [] = []"
| "wpr_login retryCount (r # rest) =
     Attempt # (case wpr_attempt retryCount r of
                  Success t \<Rightarrow> [LoggedIn t]
                | RetryAfter ms \<Rightarrow> Wait ms # wpr_login (Suc retryCount) rest
                | GiveUp m \<Rightarrow> [Failed m])"

text \<open>The same on the all-graph page.\<close>

definition ag_caught :: "nat \<Rightarrow> string \<Rightarrow> attempt_result" where
  "ag_caught retryCount m = (if retryCount < 2 then RetryAfter 2000 else GiveUp m)"

definition ag_attempt :: "nat \<Rightarrow> login_reply \<Rightarrow> attempt_result" where
  "ag_attempt retryCount r =
     (case r of
        FetchThrew m \<Rightarrow> ag_caught retryCount m
      | NotJson \<Rightarrow> ag_caught retryCount ''Invalid server response. Please try again.''
      | HttpFail msg st \<Rightarrow>
          ag_caught retryCount
            (''Server error ('' @ show_nat st @ ''): '' @ str_or msg ''Login failed'')
      | Body code msg token \<Rightarrow>
          if code = ''1'' then Success (str_or token [])
          else if (case msg of None \<Rightarrow> False | Some t \<Rightarrow> includes_str t ''busy'')
                  \<and> retryCount < 2
          then RetryAfter 2000
          else ag_caught retryCount (str_or msg ''Login failed''))"

fun ag_login :: "nat \<Rightarrow> login_reply list \<Rightarrow> login_event list" where
  "ag_login retryCount [] = []"
| "ag_login retryCount (r # rest) =
     Attempt # (case ag_attempt retryCount r of
                  Success t \<Rightarrow> [LoggedIn t]
                | RetryAfter ms \<Rightarrow> Wait ms # ag_login (Suc retryCount) rest
                | GiveUp m \<Rightarrow> [Failed m])"

definition attempts :: "login_event list \<Rightarrow> nat" where
  "attempts evs = length (filter (\<lambda>e. e = Attempt) evs)"

section \<open>Summary statistics of the weekly-report page\<close>

datatype sort_column =
  ByBeneficiaryName | ByInverterId | ByCapacity | ByTotalKwh | ByAvgDailyKwh | BySpecYield

datatype sort_order = Asc | Desc

text \<open>The search filter of \<open>filteredData\<close>; \<open>needle\<close> is the lower-cased search term.\<close>

definition matches_search :: "string \<Rightarrow> ui_performance \<Rightarrow> bool" where
  "matches_search needle item =
     (includes_str (toLowerCase (beneficiaryName item)) needle
      \<or> includes_str (toLowerCase (inverterId item)) needle
      \<or> includes_str (toLowerCase (serialNo item)) needle)"

text \<open>\<open>a[sortBy] || 0\<close>, as the subtraction reads it: a name or an identifier as a number.\<close>

definition column_value :: "sort_column \<Rightarrow> ui_performance \<Rightarrow> jsnum" where
  "column_value sortBy r =
     (case sortBy of
        ByBeneficiaryName \<Rightarrow>
          if beneficiaryName r = [] then Fin 0 else to_number (beneficiaryName r)
      | ByInverterId \<Rightarrow> if inverterId r = [] then Fin 0 else to_number (inverterId r)
      | ByCapacity \<Rightarrow> num_or (capacity r) (Fin 0)
      | ByTotalKwh \<Rightarrow> num_or (totalKwh r) (Fin 0)
      | ByAvgDailyKwh \<Rightarrow> num_or (avgDailyKwh r) (Fin 0)
      | BySpecYield \<Rightarrow> num_or (specYield r) (Fin 0))"

text \<open>The comparator of \<open>filteredData\<close>.\<close>

definition by_column :: "sort_column \<Rightarrow> sort_order \<Rightarrow> ui_performance \<Rightarrow> ui_performance \<Rightarrow> jsnum" where
  "by_column sortBy sortOrder a b =
     (case sortOrder of
        Desc \<Rightarrow> js_sub (column_value sortBy b) (column_value sortBy a)
      | Asc \<Rightarrow> js_sub (column_value sortBy a) (column_value sortBy b))"

text \<open>\<open>filteredData\<close>; \<open>srt\<close> is the engine's \<open>sort\<close>.\<close>

definition filteredData ::
  "((ui_performance \<Rightarrow> ui_performance \<Rightarrow> jsnum) \<Rightarrow> ui_performance list \<Rightarrow> ui_performance list)
     \<Rightarrow> ui_performance list \<Rightarrow> string \<Rightarrow> sort_column \<Rightarrow> sort_order \<Rightarrow> ui_performance list" where
  "filteredData srt performanceData searchTerm sortBy sortOrder =
     (let data = filter (\<lambda>item. \<not> truthy (error item)) performanceData;
          data2 = (if searchTerm \<noteq> [] then filter (matches_search (toLowerCase searchTerm)) data
                   else data)
      in srt (by_column sortBy sortOrder) data2)"

text \<open>
  The summary; \<open>bestPerformer\<close> and \<open>worstPerformer\<close> are \<open>None\<close> where the array
  element read is \<open>undefined\<close>.
\<close>

record summary =
  sum_totalKwh :: jsnum
  sum_avgDailyKwh :: jsnum
  avgSpecYield :: jsnum
  totalCapacity :: jsnum
  totalInverters :: nat
  bestPerformer :: "ui_performance option"
  worstPerformer :: "ui_performance option"

text \<open>\<open>validData.reduce((sum, item) => sum + item.f, 0)\<close>\<close>

definition reduce_sum :: "(ui_performance \<Rightarrow> jsnum) \<Rightarrow> ui_performance list \<Rightarrow> jsnum" where
  "reduce_sum f validData = foldl (\<lambda>sum item. js_add sum (f item)) (Fin 0) validData"

text \<open>\<open>(a, b) => b.specYield - a.specYield\<close>\<close>

definition by_yield :: "ui_performance \<Rightarrow> ui_performance \<Rightarrow> jsnum" where
  "by_yield a b = js_sub (specYield b) (specYield a)"

text \<open>\<open>summaryStats\<close> from \<open>filteredData\<close>: \<open>None\<close> is \<open>null\<close>.\<close>

definition summaryStats ::
  "((ui_performance \<Rightarrow> ui_performance \<Rightarrow> jsnum) \<Rightarrow> ui_performance list \<Rightarrow> ui_performance list)
     \<Rightarrow> ui_performance list \<Rightarrow> summary option" where
  "summaryStats srt filtered =
     (if filtered = [] then None
      else
        (let validData = filter (\<lambda>item. js_lt (Fin 0) (totalKwh item)) filtered
         in if validData = [] then None
            else
              (let n = Fin (of_nat (length validData));
                   sortedByYield = srt by_yield validData
               in Some \<lparr>sum_totalKwh = toFixed 2 (reduce_sum totalKwh validData),
                        sum_avgDailyKwh = toFixed 2 (js_div (reduce_sum avgDailyKwh validData) n),
                        avgSpecYield = toFixed 3 (js_div (reduce_sum specYield validData) n),
                        totalCapacity = toFixed 2 (reduce_sum capacity validData),
                        totalInverters = length validData,
                        bestPerformer =
                          (if sortedByYield = [] then None else Some (hd sortedByYield)),
                        worstPerformer =
                          (if sortedByYield = [] then None else Some (last sortedByYield))\<rparr>)))"

section \<open>Dates and the fetch window\<close>

text \<open>
  A \<open>Date\<close> as the local calendar fields the code reads: \<open>getFullYear()\<close>,
  \<open>getMonth()\<close> (from 0) and \<open>getDate()\<close>.
\<close>

record jsdate =
  fullYear :: int
  month0 :: nat
  dayOfMonth :: nat

definition leap_year :: "int \<Rightarrow> bool" where
  "leap_year y = ((y mod 4 = 0 \<and> y mod 100 \<noteq> 0) \<or> y mod 400 = 0)"

definition days_in_month :: "int \<Rightarrow> nat \<Rightarrow> nat" where
  "days_in_month y m =
     (if m = 1 then (if leap_year y then 29 else 28)
      else if m = 3 \<or> m = 5 \<or> m = 8 \<or> m = 10 then 30
      else 31)"

text \<open>
  \<open>setDate(n)\<close>: day \<open>n\<close> of the month, carried into the months before when \<open>n < 1\<close>
  and into the months after when it is past the month's end.
\<close>

function normalize_day :: "int \<Rightarrow> nat \<Rightarrow> int \<Rightarrow> jsdate" where
  "normalize_day y m n =
     (if n < 1 then
        (if m = 0 then normalize_day (y - 1) 11 (n + 31)
         else normalize_day y (m - 1) (n + int (days_in_month y (m - 1))))
      else if n > int (days_in_month y m) then
        (if m \<ge> 11 then normalize_day (y + 1) 0 (n - int (days_in_month y m))
         else normalize_day y (m + 1) (n - int (days_in_month y m)))
      else \<lparr>fullYear = y, month0 = m, dayOfMonth = nat n\<rparr>)"
  by pat_completeness auto
termination
  by (relation "measures [\<lambda>(y, m, n). if n < 1 then 1 else 0, \<lambda>(y, m, n). nat \<bar>n\<bar>]")
     (auto simp: days_in_month_def)

declare normalize_day.simps [simp del]

definition setDate :: "jsdate \<Rightarrow> int \<Rightarrow> jsdate" where
  "setDate d n = normalize_day (fullYear d) (month0 d) n"

text \<open>\<open>formatDateForAPI\<close>, the same in the cron handler and on the weekly-report page.\<close>

definition formatDateForAPI :: "jsdate \<Rightarrow> string" where
  "formatDateForAPI d =
     show_int (fullYear d) @ padStart2 (month0 d + 1) @ padStart2 (dayOfMonth d)"

text \<open>\<open>apiStart = new Date(start); apiStart.setDate(apiStart.getDate() - 1)\<close>\<close>

definition apiStart_of :: "jsdate \<Rightarrow> jsdate" where
  "apiStart_of start = setDate start (int (dayOfMonth start) - 1)"

record fetch_window =
  apiStartDate :: string
  apiEndDate :: string

text \<open>
  \<open>new Date(s)\<close> for a date string of the page's state, which the date inputs and
  \<open>formatDate\<close> write as \<open>YYYY-MM-DD\<close>: the calendar day it names, or \<open>None\<close> for an
  invalid date. Only that form, with a day that the calendar has, is read as a date here
  (on other strings engines differ).
\<close>

definition parse_iso_date :: "string \<Rightarrow> jsdate option" where
  "parse_iso_date s =
     (if length s = 10 \<and> s ! 4 = CHR ''-'' \<and> s ! 7 = CHR ''-''
         \<and> list_all is_digit (take 4 s @ take 2 (drop 5 s) @ drop 8 s)
      then
        (let y = digits_val (take 4 s);
             m = nat (digits_val (take 2 (drop 5 s)));
             d = nat (digits_val (drop 8 s))
         in if 1 \<le> m \<and> m \<le> 12 \<and> 1 \<le> d \<and> d \<le> days_in_month y (m - 1)
            then Some \<lparr>fullYear = y, month0 = m - 1, dayOfMonth = d\<rparr>
            else None)
      else None)"

text \<open>
  Such a string stands for 00:00 UTC of its day, and the code reads the local fields of
  that instant. In a zone that is \<open>tz\<close> minutes east of UTC at that instant they are
  those of the day \<open>tz div 1440\<close> days later: the same day from UTC eastwards, the day
  before to the west. \<open>setDate\<close> then moves the local day and keeps the time of day, which
  is taken to exist on the day it lands on.
\<close>

definition local_fields :: "int \<Rightarrow> jsdate \<Rightarrow> jsdate" where
  "local_fields tz utc = setDate utc (int (dayOfMonth utc) + tz div 1440)"

text \<open>
  The window that \<open>fetchPerformanceData\<close> requests for the date strings of the caller's
  range, with the bounds \<open>startStr\<close> and \<open>endStr\<close> it filters by; or the error it sets
  instead. \<open>offset\<close> gives the zone's minutes east of UTC at 00:00 UTC of a day.
\<close>

definition ui_fetch_window ::
  "(jsdate \<Rightarrow> int) \<Rightarrow> string \<Rightarrow> string \<Rightarrow> string + fetch_window \<times> string \<times> string" where
  "ui_fetch_window offset startDate endDate =
     (if startDate = [] \<or> endDate = [] then Inl ''Please select a date range''
      else
        (case (parse_iso_date startDate, parse_iso_date endDate) of
           (Some s, Some e) \<Rightarrow>
             (let start = local_fields (offset s) s; end_d = local_fields (offset e) e
              in Inr (\<lparr>apiStartDate = formatDateForAPI (apiStart_of start),
                        apiEndDate = formatDateForAPI end_d\<rparr>,
                      remove_dashes startDate, remove_dashes endDate))
         | _ \<Rightarrow> Inl ''Failed to fetch data: Invalid date range selected''))"

text \<open>The start of the cron handler's range: \<open>start.setDate(start.getDate() - 7)\<close> from now.\<close>

definition cron_start :: "jsdate \<Rightarrow> jsdate" where
  "cron_start now = setDate now (int (dayOfMonth now) - 7)"

text \<open>
  The window the cron handler requests, with the bounds \<open>dateRangeStartStr\<close> and
  \<open>dateRangeEndStr\<close> it filters by.
\<close>

definition cron_fetch_window :: "jsdate \<Rightarrow> fetch_window \<times> string \<times> string" where
  "cron_fetch_window now =
     (\<lparr>apiStartDate = formatDateForAPI (apiStart_of (cron_start now)),
       apiEndDate = formatDateForAPI now\<rparr>,
      formatDateForAPI (cron_start now), formatDateForAPI now)"

text \<open>The calendar as a count of days, to measure the distance of two dates.\<close>

definition days_before_year :: "int \<Rightarrow> int" where
  "days_before_year y = 365 * y + (y - 1) div 4 - (y - 1) div 100 + (y - 1) div 400"

definition days_before_month :: "int \<Rightarrow> nat \<Rightarrow> nat" where
  "days_before_month y m = sum_list (map (days_in_month y) [0..<m])"

definition day_number :: "jsdate \<Rightarrow> int" where
  "day_number d =
     days_before_year (fullYear d) + int (days_before_month (fullYear d) (month0 d))
       + int (dayOfMonth d)"

definition valid_date :: "jsdate \<Rightarrow> bool" where
  "valid_date d =
     (month0 d < 12 \<and> 1 \<le> dayOfMonth d \<and> dayOfMonth d \<le> days_in_month (fullYear d) (month0 d))"

section \<open>The series in closed form\<close>

text \<open>An item that has a reading, and the reading of an item, 0 for one that has none.\<close>

definition valued :: "raw_item \<Rightarrow> bool" where
  "valued item = (reading item \<noteq> None)"

definition kwh :: "raw_item \<Rightarrow> jsnum" where
  "kwh item = (case reading item of None \<Rightarrow> Fin 0 | Some c \<Rightarrow> c)"

text \<open>The daily point of an item \<open>x\<close> that follows a previous value \<open>p\<close>.\<close>

definition delta_point :: "raw_item \<Rightarrow> jsnum \<Rightarrow> daily_point" where
  "delta_point x p =
     \<lparr>date = time_stamp x, dailyKwh = js_max (Fin 0) (js_sub (kwh x) p), cumulativeKwh = kwh x\<rparr>"

text \<open>The same for the yearly formatter, and the test that keeps the point.\<close>

definition yearly_point_of :: "string \<Rightarrow> raw_item \<Rightarrow> jsnum \<Rightarrow> yearly_point" where
  "yearly_point_of sn x p =
     \<lparr>year = time_stamp x, yearNum = parseInt (time_stamp x),
      yearlyKwh = js_max (Fin 0) (js_sub (kwh x) p), cumulativeKwh_y = kwh x,
      serialNumber = sn\<rparr>"

definition year_in_range :: "year_range \<Rightarrow> raw_item \<Rightarrow> bool" where
  "year_in_range rng x = in_range rng (parseInt (time_stamp x))"

text \<open>
  The items that have a reading, each with the reading of the one before it, the first
  with \<open>p\<close>.
\<close>

definition with_previous :: "jsnum \<Rightarrow> raw_item list \<Rightarrow> (raw_item \<times> jsnum) list" where
  "with_previous p items =
     (let vs = filter valued items in zip vs (p # map kwh vs))"

section \<open>Example inputs\<close>

text \<open>
  An item with one value field; the three readings of the specification's worked example,
  in watt-hours; two yearly readings and a range of years.
\<close>

definition item :: "string \<Rightarrow> string \<Rightarrow> raw_item" where
  "item ts v = \<lparr>time_stamp = ts, props = [(''p2'', v)]\<rparr>"

definition spec_series :: "raw_item list" where
  "spec_series = [item ''20240101'' ''0'', item ''20240102'' ''5000'', item ''20240103'' ''12000'']"

definition year_series :: "raw_item list" where
  "year_series = [item ''2020'' ''5000'', item ''2021'' ''12000'']"

definition decade :: year_range where
  "decade = \<lparr>startYear = 2015, endYear = 2024\<rparr>"


text \<open>The roster row of the specification's example, as the cron handler loads it.\<close>

definition rahul :: inverter where
  "rahul = \<lparr>row_id = None, serialNo = ''49'', inverterId = ''I2492100573'',
            beneficiaryName = ''RAHUL SHARMA'', capacity = Fin 3\<rparr>"

text \<open>A good energy response around a data array, and a device response with a key.\<close>

definition energy_of :: "raw_item list \<Rightarrow> energy_response" where
  "energy_of dataArray =
     \<lparr>e_result_code = ''1'', e_result_msg = None,
      e_result_data = Some [(''1234_1_1_1'', [(''p2'', dataArray)])]\<rparr>"

definition device_ok :: device_response where
  "device_ok = \<lparr>d_result_code = ''1'', d_result_msg = None,
                device_point_list = Some [Some ''1234_1_1_1'']\<rparr>"

text \<open>
  A device response that lists one point without a key; the error object and a good
  record of the weekly-report page; an answer of the write endpoint.
\<close>

definition device_no_key :: device_response where
  "device_no_key = \<lparr>d_result_code = ''1'', d_result_msg = None,
                    device_point_list = Some [None]\<rparr>"

definition no_key_record :: ui_performance where
  "no_key_record = error_record rahul None ''No PS Key found'' 8 None"

definition good_record :: ui_performance where
  "good_record = ui_record rahul ''1234_1_1_1'' 8 (delta_walk spec_series, Fin 12)"

definition sync_ok :: sync_response where
  "sync_ok = \<lparr>r_success = True, newRows = 1, updatedRows = 0, r_error = None,
              r_message = None\<rparr>"

text \<open>Replies of the login endpoint.\<close>

definition busy_reply :: login_reply where
  "busy_reply = Body ''0'' (Some ''Server is Busy, try later'') None"

definition offline_reply :: login_reply where
  "offline_reply = FetchThrew ''Failed to fetch''"

section \<open>Properties\<close>

subsection \<open>The walks in closed form\<close>

lemma with_previous_Nil: "with_previous p [] = []"
  by (simp add: with_previous_def)

lemma with_previous_Cons:
  "with_previous p (x # xs) =
     (if valued x then (x, p) # with_previous (kwh x) xs else with_previous p xs)"
  by (simp add: with_previous_def Let_def)

lemma delta_step_valued:
  "valued x \<Longrightarrow> delta_step (p, acc) (Suc n, x) = (kwh x, acc @ [delta_point x p])"
  by (auto simp: valued_def kwh_def delta_point_def split: option.splits)


lemma delta_step_unvalued: "\<not> valued x \<Longrightarrow> delta_step (p, acc) (n, x) = (p, acc)"
  by (auto simp: valued_def split: option.splits)

lemma delta_step_seed: "delta_step (Fin 0, []) (0, x) = (kwh x, [])"
  by (auto simp: kwh_def split: option.splits)

declare delta_step.simps [simp del]

lemma foldl_delta_step:
  "snd (foldl delta_step (p, acc) (enumerate (Suc n) xs))
     = acc @ map (\<lambda>(x, q). delta_point x q) (with_previous p xs)"
proof (induction xs arbitrary: p acc n)
  case Nil
  show ?case by (simp add: with_previous_Nil)
next
  case (Cons x xs)
  show ?case
  proof (cases "valued x")
    case True
    then show ?thesis using Cons.IH [of "kwh x" "acc @ [delta_point x p]" "Suc n"]
      by (simp add: delta_step_valued with_previous_Cons)
  next
    case False
    then show ?thesis using Cons.IH [of p acc "Suc n"]
      by (simp add: delta_step_unvalued with_previous_Cons)
  qed
qed

lemma delta_walk_Nil: "delta_walk [] = []"
  by (simp add: delta_walk_def)

lemma delta_walk_Cons:
  "delta_walk (c0 # cs) = map (\<lambda>(x, q). delta_point x q) (with_previous (kwh c0) cs)"
  using foldl_delta_step [of "kwh c0" "[]" 0 cs]
  by (simp add: delta_walk_def delta_step_seed)

lemma with_previous_all:
  "\<forall>x\<in>set cs. valued x \<Longrightarrow> with_previous p cs = zip cs (p # map kwh cs)"
  by (simp add: with_previous_def Let_def)

lemma yearly_step_valued:
  "valued x \<Longrightarrow> yearly_step sn rng (p, acc) x
     = (kwh x, if year_in_range rng x then acc @ [yearly_point_of sn x p] else acc)"
  by (auto simp: valued_def kwh_def yearly_point_of_def year_in_range_def Let_def
      split: option.splits)

lemma yearly_step_unvalued: "\<not> valued x \<Longrightarrow> yearly_step sn rng (p, acc) x = (p, acc)"
  by (auto simp: valued_def split: option.splits)

declare yearly_step.simps [simp del]

lemma foldl_yearly_step:
  "snd (foldl (yearly_step sn rng) (p, acc) xs)
     = acc @ map (\<lambda>(x, q). yearly_point_of sn x q)
               (filter (\<lambda>(x, q). year_in_range rng x) (with_previous p xs))"
proof (induction xs arbitrary: p acc)
  case Nil
  show ?case by (simp add: with_previous_Nil)
next
  case (Cons x xs)
  show ?case
  proof (cases "valued x")
    case True
    then show ?thesis
      using Cons.IH [of "kwh x" "if year_in_range rng x then acc @ [yearly_point_of sn x p] else acc"]
      by (simp add: yearly_step_valued with_previous_Cons)
  next
    case False
    then show ?thesis using Cons.IH [of p acc]
      by (simp add: yearly_step_unvalued with_previous_Cons)
  qed
qed

lemma yearly_walk_closed:
  "yearly_walk sn rng items
     = map (\<lambda>(x, q). yearly_point_of sn x q)
         (filter (\<lambda>(x, q). year_in_range rng x) (with_previous (Fin 0) items))"
  using foldl_yearly_step [of sn rng "Fin 0" "[]" items] by (simp add: yearly_walk_def)


subsection \<open>C1: the delta series\<close>

text \<open>
  C1, as the code has it. In the daily engine of the cron handler and of the weekly-report
  page the first sorted item only seeds the previous value: an empty series and a series of
  one item give no point, and a series \<open>c0, cs\<close> gives one point for every item of
  \<open>cs\<close> that has a reading, with the delta \<open>max(0, reading - previous)\<close> from the reading
  of the item with a reading before it (from that of \<open>c0\<close>, or 0 when \<open>c0\<close> has none),
  whatever the sign of the difference. So when every item of \<open>cs\<close> has a reading, the
  \<open>n + 1\<close> items give exactly \<open>n\<close> points, and point \<open>i\<close> has the date and the
  reading of item \<open>i + 1\<close> and the delta \<open>max(0, c (i + 1) - c i)\<close>.
  \<open>formatYearlyData\<close> of the all-graph page has no seed: on the array as the engine sorted
  it, every item with a reading whose year is in the range gives a point, whose delta is
  measured from the reading before it, in the range or not, and from 0 for the first; the
  points are then sorted by year. So a first item in the range gives a point of its own.
\<close>

theorem C1_delta_series:
  "delta_walk [] = []
   \<and> delta_walk [c0] = []
   \<and> delta_walk (c0 # cs) = map (\<lambda>(x, p). delta_point x p) (with_previous (kwh c0) cs)
   \<and> ((\<forall>x \<in> set cs. valued x) \<longrightarrow>
        length (delta_walk (c0 # cs)) = length cs
        \<and> (\<forall>i < length cs.
              date (delta_walk (c0 # cs) ! i) = time_stamp ((c0 # cs) ! Suc i)
              \<and> dailyKwh (delta_walk (c0 # cs) ! i)
                  = js_max (Fin 0) (js_sub (kwh ((c0 # cs) ! Suc i)) (kwh ((c0 # cs) ! i)))
              \<and> cumulativeKwh (delta_walk (c0 # cs) ! i) = kwh ((c0 # cs) ! Suc i)))
   \<and> formatYearlyData srt_items srt_points (Some ((k, (dp, dataArray) # inner) # rest)) sn rng
       = Inr (if dataArray = [] then []
              else srt_points by_yearNum
                     (map (\<lambda>(x, p). yearly_point_of sn x p)
                        (filter (\<lambda>(x, p). year_in_range rng x)
                           (with_previous (Fin 0) (srt_items by_year dataArray)))))
   \<and> yearly_walk sn rng items
       = map (\<lambda>(x, p). yearly_point_of sn x p)
           (filter (\<lambda>(x, p). year_in_range rng x) (with_previous (Fin 0) items))
   \<and> (valued y \<and> year_in_range rng y \<longrightarrow>
        yearly_walk sn rng (y # ys)
          = yearly_point_of sn y (Fin 0)
              # map (\<lambda>(x, p). yearly_point_of sn x p)
                  (filter (\<lambda>(x, p). year_in_range rng x) (with_previous (kwh y) ys))
        \<and> yearlyKwh (yearly_point_of sn y (Fin 0)) = js_max (Fin 0) (js_sub (kwh y) (Fin 0)))"
proof (intro conjI impI allI)
  show "delta_walk [] = []" by (rule delta_walk_Nil)
  show "delta_walk [c0] = []" by (simp add: delta_walk_Cons with_previous_Nil)
  show "delta_walk (c0 # cs) = map (\<lambda>(x, p). delta_point x p) (with_previous (kwh c0) cs)"
    by (rule delta_walk_Cons)
next
  assume h: "\<forall>x \<in> set cs. valued x"
  have w: "delta_walk (c0 # cs) = map (\<lambda>(x, p). delta_point x p) (zip cs (kwh c0 # map kwh cs))"
    by (simp add: delta_walk_Cons with_previous_all [OF h])
  show "length (delta_walk (c0 # cs)) = length cs" by (simp add: w)
  fix i assume i: "i < length cs"
  have p: "(kwh c0 # map kwh cs) ! i = kwh ((c0 # cs) ! i)"
    using i by (cases i) simp_all
  have n: "delta_walk (c0 # cs) ! i = delta_point (cs ! i) (kwh ((c0 # cs) ! i))"
    unfolding w using i by (simp add: p)
  show "date (delta_walk (c0 # cs) ! i) = time_stamp ((c0 # cs) ! Suc i)"
    and "dailyKwh (delta_walk (c0 # cs) ! i)
           = js_max (Fin 0) (js_sub (kwh ((c0 # cs) ! Suc i)) (kwh ((c0 # cs) ! i)))"
    and "cumulativeKwh (delta_walk (c0 # cs) ! i) = kwh ((c0 # cs) ! Suc i)"
    by (simp_all add: n delta_point_def)
next
  show "formatYearlyData srt_items srt_points (Some ((k, (dp, dataArray) # inner) # rest)) sn rng
       = Inr (if dataArray = [] then []
              else srt_points by_yearNum
                     (map (\<lambda>(x, p). yearly_point_of sn x p)
                        (filter (\<lambda>(x, p). year_in_range rng x)
                           (with_previous (Fin 0) (srt_items by_year dataArray)))))"
    by (simp add: formatYearlyData_def yearly_walk_closed)
next
  show "yearly_walk sn rng items
       = map (\<lambda>(x, p). yearly_point_of sn x p)
           (filter (\<lambda>(x, p). year_in_range rng x) (with_previous (Fin 0) items))"
    by (rule yearly_walk_closed)
next
  assume h: "valued y \<and> year_in_range rng y"
  then show "yearly_walk sn rng (y # ys)
          = yearly_point_of sn y (Fin 0)
              # map (\<lambda>(x, p). yearly_point_of sn x p)
                  (filter (\<lambda>(x, p). year_in_range rng x) (with_previous (kwh y) ys))"
    by (simp add: yearly_walk_closed with_previous_Cons)
  show "yearlyKwh (yearly_point_of sn y (Fin 0)) = js_max (Fin 0) (js_sub (kwh y) (Fin 0))"
    by (simp add: yearly_point_of_def)
qed

lemma ex_kwh:
  "kwh (item ''20240101'' ''0'') = Fin 0"
  "kwh (item ''20240102'' ''5000'') = Fin 5"
  "kwh (item ''20240103'' ''12000'') = Fin 12"
  "kwh (item ''2020'' ''5000'') = Fin 5"
  "kwh (item ''2021'' ''12000'') = Fin 12"
  by code_simp+

lemma item_ts: "time_stamp (item ts v) = ts"
  by (simp add: item_def)

lemma valued_item: "valued (item ts v)"
  by (simp add: valued_def reading_def valueKey_def item_def)

lemma ex_year:
  "parseInt ''2020'' = Fin 2020" "parseInt ''2021'' = Fin 2021"
  by code_simp+

lemma ex_sub:
  "js_max (Fin 0) (js_sub (Fin 5) (Fin 0)) = Fin 5"
  "js_max (Fin 0) (js_sub (Fin 12) (Fin 5)) = Fin 7"
  by code_simp+

lemma ex_range: "in_range decade (Fin 2020)" "in_range decade (Fin 2021)"
  by (simp_all add: in_range_def decade_def)

theorem C1_delta_series_witness:
  "delta_walk spec_series
     = [\<lparr>date = ''20240102'', dailyKwh = Fin 5, cumulativeKwh = Fin 5\<rparr>,
        \<lparr>date = ''20240103'', dailyKwh = Fin 7, cumulativeKwh = Fin 12\<rparr>]
   \<and> length (delta_walk spec_series) = 2
   \<and> dailyKwh (delta_walk spec_series ! 1) = Fin 7
   \<and> yearly_walk ''SN'' decade year_series
       = [\<lparr>year = ''2020'', yearNum = Fin 2020, yearlyKwh = Fin 5, cumulativeKwh_y = Fin 5,
            serialNumber = ''SN''\<rparr>,
          \<lparr>year = ''2021'', yearNum = Fin 2021, yearlyKwh = Fin 7, cumulativeKwh_y = Fin 12,
            serialNumber = ''SN''\<rparr>]"
proof -
  have v: "\<forall>x \<in> set [item ''20240102'' ''5000'', item ''20240103'' ''12000'']. valued x"
    "valued (item ''2020'' ''5000'') \<and> year_in_range decade (item ''2020'' ''5000'')"
    by (simp_all add: valued_item year_in_range_def ex_year ex_range item_ts)
  from C1_delta_series [where ?c0.0 = "item ''20240101'' ''0''"
      and cs = "[item ''20240102'' ''5000'', item ''20240103'' ''12000'']"
      and y = "item ''2020'' ''5000''" and ys = "[item ''2021'' ''12000'']"
      and sn = "''SN''" and rng = decade] v
  show ?thesis
    by (simp add: spec_series_def year_series_def with_previous_def valued_item ex_kwh
        delta_point_def yearly_point_of_def ex_sub year_in_range_def ex_year ex_range item_ts)
qed

theorem C1_counterexample:
  "formatYearlyData js_sort js_sort (Some [(''k'', [(''p2'', [item ''2020'' ''5000''])])]) ''SN'' decade
   = Inr [\<lparr>year = ''2020'', yearNum = Fin 2020, yearlyKwh = Fin 5, cumulativeKwh_y = Fin 5,
           serialNumber = ''SN''\<rparr>]
   \<and> delta_walk [item ''2020'' ''5000''] = []"
  by code_simp

subsection \<open>C6: the sync writer leaves error records out\<close>

lemma syncData_of_rows:
  "row \<in> set (syncData_of days performanceData) \<longleftrightarrow>
   (\<exists>item \<in> set performanceData. \<not> truthy (error item) \<and> row = sync_row days item)"
  by (auto simp: syncData_of_def)

lemma syncData_of_Nil:
  "syncData_of days performanceData = [] \<longleftrightarrow> (\<forall>item \<in> set performanceData. truthy (error item))"
  by (auto simp: syncData_of_def filter_empty_conv)

lemma posts_handleSync:
  "posts (handleSyncCSVFormat performanceData sd ed days postResult) =
     (if syncData_of days performanceData = [] then []
      else [\<lparr>action = ''syncCSVFormat'', sheetName = ''Weekly_Performance_Logs'',
             dateRangeStart = formatDateToDDMMYYYY sd, dateRangeEnd = formatDateToDDMMYYYY ed,
             payload = syncData_of days performanceData\<rparr>])"
  by (cases "performanceData = []")
     (auto simp: handleSyncCSVFormat_def Let_def sync_failed_def syncData_of_def
       split: http_result.splits)

text \<open>
  C6. \<open>handleSyncCSVFormat\<close> issues at most one POST; the payload of a POST it issues
  is made of the records whose \<open>error\<close> is not set (absent, \<open>null\<close> or empty; the
  pipeline sets it to a non-empty message or to \<open>null\<close>), one row for each. When no
  record is without error there is nothing to sync: no POST is issued, the call fails, and
  what it returns does not depend on any answer of the endpoint. With no record at all
  the failure is shown as the toast "No performance data available to sync"; otherwise it
  is the error "No valid data to sync (all records have errors)".
\<close>

theorem C6_sync_excludes_errors:
  "(\<forall>req \<in> set (posts (handleSyncCSVFormat performanceData sd ed days postResult)).
      payload req = syncData_of days performanceData
      \<and> (\<forall>row \<in> set (payload req).
            \<exists>item \<in> set performanceData. \<not> truthy (error item) \<and> row = sync_row days item))
   \<and> length (posts (handleSyncCSVFormat performanceData sd ed days postResult)) \<le> 1
   \<and> ((\<forall>item \<in> set performanceData. truthy (error item)) \<longrightarrow>
        posts (handleSyncCSVFormat performanceData sd ed days postResult) = []
        \<and> \<not> success (handleSyncCSVFormat performanceData sd ed days postResult)
        \<and> handleSyncCSVFormat performanceData sd ed days postResult =
            (if performanceData = [] then
               \<lparr>success = False, returned_error = None, posts = [],
                toasts = [(Plain ''No performance data available to sync'', ''error'')]\<rparr>
             else sync_failed ''No valid data to sync (all records have errors)'' []))"
proof (intro conjI impI ballI)
  fix req
  assume r: "req \<in> set (posts (handleSyncCSVFormat performanceData sd ed days postResult))"
  then show p: "payload req = syncData_of days performanceData"
    by (auto simp: posts_handleSync split: if_splits)
  fix row
  assume "row \<in> set (payload req)"
  with p show "\<exists>item \<in> set performanceData. \<not> truthy (error item) \<and> row = sync_row days item"
    by (simp add: syncData_of_rows)
next
  show "length (posts (handleSyncCSVFormat performanceData sd ed days postResult)) \<le> 1"
    by (simp add: posts_handleSync)
next
  assume a: "\<forall>item \<in> set performanceData. truthy (error item)"
  then have n: "syncData_of days performanceData = []" by (simp add: syncData_of_Nil)
  then show "posts (handleSyncCSVFormat performanceData sd ed days postResult) = []"
    by (simp add: posts_handleSync)
  from n show e: "handleSyncCSVFormat performanceData sd ed days postResult =
            (if performanceData = [] then
               \<lparr>success = False, returned_error = None, posts = [],
                toasts = [(Plain ''No performance data available to sync'', ''error'')]\<rparr>
             else sync_failed ''No valid data to sync (all records have errors)'' [])"
    by (simp add: handleSyncCSVFormat_def Let_def)
  show "\<not> success (handleSyncCSVFormat performanceData sd ed days postResult)"
    unfolding e by (simp add: sync_failed_def)
qed

text \<open>The theorem on an error record alone, and on an error record with a good one.\<close>

lemma error_no_key: "truthy (error no_key_record)" "\<not> truthy (error good_record)"
  by (simp_all add: no_key_record_def error_record_def good_record_def ui_record_def Let_def
      truthy_def)

theorem C6_sync_excludes_errors_witness:
  "posts (handleSyncCSVFormat [no_key_record] ''2024-01-01'' ''2024-01-08'' 8 (Json sync_ok)) = []
   \<and> returned_error
        (handleSyncCSVFormat [no_key_record] ''2024-01-01'' ''2024-01-08'' 8 (Json sync_ok))
       = Some ''No valid data to sync (all records have errors)''
   \<and> map payload
        (posts (handleSyncCSVFormat [no_key_record, good_record] ''2024-01-01'' ''2024-01-08'' 8
                  (Json sync_ok)))
       = [[sync_row 8 good_record]]"
proof -
  let ?bad = "handleSyncCSVFormat [no_key_record] ''2024-01-01'' ''2024-01-08'' 8 (Json sync_ok)"
  let ?mixed = "handleSyncCSVFormat [no_key_record, good_record] ''2024-01-01'' ''2024-01-08'' 8
                  (Json sync_ok)"
  have h: "\<forall>item \<in> set [no_key_record]. truthy (error item)"
    by (simp add: error_no_key)
  from C6_sync_excludes_errors[of "[no_key_record]" "''2024-01-01''" "''2024-01-08''" 8 "Json sync_ok"] h
  have bad: "posts ?bad = []"
    "?bad = sync_failed ''No valid data to sync (all records have errors)'' []"
    by (simp_all add: sync_failed_def)
  have sd: "syncData_of 8 [no_key_record, good_record] = [sync_row 8 good_record]"
    by (simp add: syncData_of_def error_no_key)
  then obtain req where req: "posts ?mixed = [req]"
    by (simp add: posts_handleSync)
  with C6_sync_excludes_errors[of "[no_key_record, good_record]" "''2024-01-01''" "''2024-01-08''" 8
      "Json sync_ok"]
  have "payload req = syncData_of 8 [no_key_record, good_record]"
    by simp
  with req sd bad show ?thesis by (simp add: sync_failed_def)
qed


subsection \<open>C7: an inverter without a key\<close>

lemma find_ps_key_none:
  "\<not> truthy (find_ps_key l) \<longleftrightarrow> (\<forall>p \<in> set l. \<not> truthy p)"
  by (induction l) (auto simp: find_ps_key_def truthy_def split: option.splits)

lemma ui_device_key_no_key:
  assumes "d_result_code deviceData = ''1''" "device_point_list deviceData = Some l"
    "\<forall>p \<in> set l. \<not> truthy p"
  shows "ui_device_key ivt days (Json deviceData)
         = Return (error_record ivt None ''No PS Key found'' days None)"
proof -
  from assms(3) have "\<not> truthy (find_ps_key l)" by (simp add: find_ps_key_none)
  then show ?thesis using assms(1,2)
    by (auto simp: ui_device_key_def truthy_def split: option.splits)
qed

text \<open>
  C7, as the code has it. On the weekly-report page, for a listed inverter without a
  cached key, a device response with code \<open>"1"\<close> and a point list none of whose entries
  holds a key gives, whatever the energy endpoint would answer, the record of that
  inverter with the error "No PS Key found", no daily data and \<open>totalKwh\<close>,
  \<open>avgDailyKwh\<close> and \<open>specYield\<close> zero; nothing is thrown and the inverter stays in
  the results. In the cron handler a point list with no key gives no record at all: the
  callback returns \<open>null\<close> and the inverter is left out of the report.
\<close>

theorem C7_no_ps_key:
  "(List.find (\<lambda>i. inverterId i = iid) inverters = Some ivt
      \<and> \<not> truthy (psKeyCache iid)
      \<and> d_result_code deviceData = ''1''
      \<and> device_point_list deviceData = Some l
      \<and> (\<forall>p \<in> set l. \<not> truthy p)
    \<longrightarrow> ui_fetch_one srt lc inverters sd ed days psKeyCache iid (Json deviceData) energyRes
          = (Some (error_record ivt None ''No PS Key found'' days None), psKeyCache)
        \<and> error (error_record ivt None ''No PS Key found'' days None) = Some ''No PS Key found''
        \<and> totalKwh (error_record ivt None ''No PS Key found'' days None) = Fin 0
        \<and> avgDailyKwh (error_record ivt None ''No PS Key found'' days None) = Fin 0
        \<and> specYield (error_record ivt None ''No PS Key found'' days None) = Fin 0
        \<and> dailyData (error_record ivt None ''No PS Key found'' days None) = []
        \<and> inverterId (error_record ivt None ''No PS Key found'' days None) = iid)
   \<and> (device_point_list deviceData = Some l \<and> (\<forall>p \<in> set l. \<not> truthy p)
    \<longrightarrow> cron_fetch_one csrt clc s e civt (Json deviceData) energyRes = None)"
proof (intro conjI impI)
  assume a: "List.find (\<lambda>i. inverterId i = iid) inverters = Some ivt
      \<and> \<not> truthy (psKeyCache iid)
      \<and> d_result_code deviceData = ''1''
      \<and> device_point_list deviceData = Some l
      \<and> (\<forall>p \<in> set l. \<not> truthy p)"
  then have i: "inverterId ivt = iid" by (auto simp: find_Some_iff)
  from a have k: "ui_device_key ivt days (Json deviceData)
         = Return (error_record ivt None ''No PS Key found'' days None)"
    by (intro ui_device_key_no_key) blast+
  from a i have "ui_resolve_key ivt days psKeyCache (Json deviceData)
         = Return (error_record ivt None ''No PS Key found'' days None)"
    by (auto simp: ui_resolve_key_def k truthy_def split: option.splits)
  with a show "ui_fetch_one srt lc inverters sd ed days psKeyCache iid (Json deviceData) energyRes
          = (Some (error_record ivt None ''No PS Key found'' days None), psKeyCache)"
    by (simp add: ui_fetch_one_def)
  show "error (error_record ivt None ''No PS Key found'' days None) = Some ''No PS Key found''"
    "totalKwh (error_record ivt None ''No PS Key found'' days None) = Fin 0"
    "avgDailyKwh (error_record ivt None ''No PS Key found'' days None) = Fin 0"
    "specYield (error_record ivt None ''No PS Key found'' days None) = Fin 0"
    "dailyData (error_record ivt None ''No PS Key found'' days None) = []"
    by (simp_all add: error_record_def)
  from i show "inverterId (error_record ivt None ''No PS Key found'' days None) = iid"
    by (simp add: error_record_def)
next
  assume "device_point_list deviceData = Some l \<and> (\<forall>p \<in> set l. \<not> truthy p)"
  then show "cron_fetch_one csrt clc s e civt (Json deviceData) energyRes = None"
    by (simp add: cron_fetch_one_def find_ps_key_none)
qed

text \<open>The theorem at the inverter of the example and a response of one keyless point.\<close>

theorem C7_no_ps_key_witness:
  "ui_fetch_one js_sort compare_units [rahul] ''2024-01-01'' ''2024-01-08'' 8 Map.empty
     ''I2492100573''
     (Json device_no_key) (Json (energy_of spec_series))
   = (Some no_key_record, Map.empty)
   \<and> error no_key_record = Some ''No PS Key found''
   \<and> totalKwh no_key_record = Fin 0"
proof -
  have "List.find (\<lambda>i. inverterId i = ''I2492100573'') [rahul] = Some rahul
      \<and> \<not> truthy (Map.empty ''I2492100573'')
      \<and> d_result_code device_no_key = ''1''
      \<and> device_point_list device_no_key = Some [None]
      \<and> (\<forall>p \<in> set [None]. \<not> truthy p)"
    by (simp add: rahul_def truthy_def device_no_key_def)
  with C7_no_ps_key [where iid = "''I2492100573''" and inverters = "[rahul]" and ivt = rahul
      and psKeyCache = Map.empty and deviceData = device_no_key and l = "[None]"
      and sd = "''2024-01-01''" and ed = "''2024-01-08''" and days = 8
      and energyRes = "Json (energy_of spec_series)" and srt = js_sort and lc = compare_units]
  show ?thesis by (simp add: no_key_record_def)
qed

text \<open>
  C7 as stated fails in the cron handler: with the same response the inverter gives no
  record, with or without an error.
\<close>

theorem C7_counterexample:
  "cron_fetch_one js_sort compare_units ''20240101'' ''20240108'' rahul (Json device_no_key)
     (Json (energy_of spec_series)) = None"
  by (simp add: cron_fetch_one_def device_no_key_def find_ps_key_def truthy_def)


subsection \<open>C8: login attempts\<close>

lemma wpr_attempt_offline: "wpr_attempt k offline_reply = RetryAfter 3000"
  by (simp add: wpr_attempt_def wpr_caught_def offline_reply_def)

lemma wpr_login_offline:
  "wpr_login k (replicate n offline_reply) = concat (replicate n [Attempt, Wait 3000])"
  by (induction n arbitrary: k) (simp_all add: wpr_attempt_offline)

lemma attempts_append: "attempts (xs @ ys) = attempts xs + attempts ys"
  by (simp add: attempts_def)

text \<open>
  C8 does not hold on the weekly-report page. When every request is rejected with
  "Failed to fetch", each call schedules the next one after three seconds whatever its
  \<open>retryCount\<close>: \<open>n\<close> rejected requests are \<open>n\<close> attempts, none of which surfaces
  a failure, and the fourth attempt is made.
\<close>

theorem C8_unbounded_retries:
  "attempts (wpr_login 0 (replicate n offline_reply)) = n
   \<and> wpr_login 0 (replicate 4 offline_reply)
       = [Attempt, Wait 3000, Attempt, Wait 3000, Attempt, Wait 3000, Attempt, Wait 3000]"
proof
  have "attempts (concat (replicate n [Attempt, Wait 3000])) = n"
    by (induction n) (simp_all add: attempts_def)
  then show "attempts (wpr_login 0 (replicate n offline_reply)) = n"
    by (simp add: wpr_login_offline)
  show "wpr_login 0 (replicate 4 offline_reply)
       = [Attempt, Wait 3000, Attempt, Wait 3000, Attempt, Wait 3000, Attempt, Wait 3000]"
  proof -
    have "replicate 4 offline_reply = [offline_reply, offline_reply, offline_reply, offline_reply]"
      by (simp add: numeral_eq_Suc)
    then show ?thesis by (simp add: wpr_attempt_offline)
  qed
qed

text \<open>
  What does hold: on that page a busy server is asked three times, two seconds apart, and
  the all-graph page never makes more than three attempts.
\<close>

lemma wpr_busy_three:
  "wpr_login 0 (replicate 5 busy_reply)
   = [Attempt, Wait 2000, Attempt, Wait 2000, Attempt, Failed ''Server is Busy, try later'']"
  by code_simp

lemma ag_offline_three:
  "ag_login 0 (replicate 5 offline_reply)
   = [Attempt, Wait 2000, Attempt, Wait 2000, Attempt, Failed ''Failed to fetch'']"
  by code_simp

lemma ag_attempt_late: "2 \<le> k \<Longrightarrow> ag_attempt k r \<noteq> RetryAfter ms"
  by (auto simp: ag_attempt_def ag_caught_def split: login_reply.splits)

lemma ag_login_bounded: "attempts (ag_login k replies) \<le> 3 - k \<or> (3 \<le> k \<and> attempts (ag_login k replies) \<le> 1)"
proof (induction replies arbitrary: k)
  case Nil
  then show ?case by (simp add: attempts_def)
next
  case (Cons r rest)
  show ?case
  proof (cases "ag_attempt k r")
    case (Success t)
    then show ?thesis by (cases "k < 3") (simp_all add: attempts_def)
  next
    case (RetryAfter ms)
    then have k: "k < 2" using ag_attempt_late[of k r ms] by (cases "k < 2") auto
    from Cons.IH[of "Suc k"] k have "attempts (ag_login (Suc k) rest) \<le> 3 - Suc k"
      by auto
    with RetryAfter k show ?thesis by (simp add: attempts_def)
  next
    case (GiveUp m)
    then show ?thesis by (cases "k < 3") (simp_all add: attempts_def)
  qed
qed

lemma ag_login_at_most_three: "attempts (ag_login 0 replies) \<le> 3"
  using ag_login_bounded[of 0 replies] by auto

end
